theory Spec2Isabelle
  imports Main "HOL-Library.AList"
begin

section \<open>Python values\<close>

text \<open>
  The functions of \<^verbatim>\<open>engines/data_handler.py\<close> and \<^verbatim>\<open>engines/query_builder.py\<close> work
  on the values of JSON documents and on \<^verbatim>\<open>datetime\<close> objects: \<^verbatim>\<open>None\<close>, booleans, integers,
  floats, strings, lists, dictionaries with string keys, and dates with a time of day.
  A dictionary is an association list in insertion order; a well-formed one has distinct keys.
  The functions never compute with a float, so a float is given by the text that \<^verbatim>\<open>repr\<close>
  prints for it, which tells two floats apart.

  A string is the list of the bytes of its UTF-8 encoding. Two strings are equal exactly when
  their encodings are, and one occurs in the other exactly when its encoding occurs in the
  other's encoding; nothing here counts the characters of a string.
\<close>

datatype datetime =
  Datetime nat nat nat nat nat nat nat
    \<comment> \<open>year, month, day, hour, minute, second, microsecond\<close>

datatype pyval =
    PNone
  | PBool bool
  | PInt int
  | PFloat string
  | PStr string
  | PList "pyval list"
  | PDict "(string \<times> pyval) list"
  | PDatetime datetime

type_synonym pydict = "(string \<times> pyval) list"

text \<open>Exceptions. \<open>ValueError\<close> carries the message where the repository's code writes it.\<close>

datatype py_error = ValueError string | AttributeError | TypeError

text \<open>The calls of \<^verbatim>\<open>log_info\<close> and \<^verbatim>\<open>log_error\<close>, one constructor for each call in the code.\<close>

datatype log_entry =
    Info_normalized pydict      \<comment> \<open>\<^verbatim>\<open>log_info(f"Normalized query object: {normalized}")\<close>\<close>
  | Info_detected string        \<comment> \<open>\<^verbatim>\<open>log_info(f"Detected data format: {data_format}")\<close>\<close>
  | Info_found nat nat          \<comment> \<open>\<^verbatim>\<open>log_info(f"Found {..} matching records out of {..}")\<close>\<close>
  | Error_date_start pyval      \<comment> \<open>\<^verbatim>\<open>log_error(f"Invalid date format for date_start: {..}")\<close>\<close>
  | Error_date_end pyval        \<comment> \<open>\<^verbatim>\<open>log_error(f"Invalid date format for date_end: {..}")\<close>\<close>
  | Error_processing py_error   \<comment> \<open>\<^verbatim>\<open>log_error(f"Error processing dynamic data: {str(e)}")\<close>\<close>

subsection \<open>Truth value, dictionary access\<close>

text \<open>\<^verbatim>\<open>bool(v)\<close>, as in \<^verbatim>\<open>if query_obj.get("location"):\<close>. The floats that count as false are the
  two zeros.\<close>

fun truthy :: "pyval \<Rightarrow> bool" where
  "truthy PNone = False"
| "truthy (PBool b) = b"
| "truthy (PInt i) = (i \<noteq> 0)"
| "truthy (PFloat r) = (r \<noteq> ''0.0'' \<and> r \<noteq> ''-0.0'')"
| "truthy (PStr s) = (s \<noteq> [])"
| "truthy (PList xs) = (xs \<noteq> [])"
| "truthy (PDict d) = (d \<noteq> [])"
| "truthy (PDatetime t) = True"

text \<open>\<^verbatim>\<open>d.get(k)\<close>: the value, or \<^verbatim>\<open>None\<close> for a missing key.\<close>

definition dict_get :: "pydict \<Rightarrow> string \<Rightarrow> pyval" where
  "dict_get d k = (case map_of d k of None \<Rightarrow> PNone | Some v \<Rightarrow> v)"

text \<open>\<^verbatim>\<open>k in d\<close>.\<close>

definition dict_has :: "pydict \<Rightarrow> string \<Rightarrow> bool" where
  "dict_has d k = (map_of d k \<noteq> None)"

text \<open>\<^verbatim>\<open>d[k] = v\<close>: an existing key keeps its place, a new key goes to the end.\<close>

definition dict_set :: "string \<Rightarrow> pyval \<Rightarrow> pydict \<Rightarrow> pydict" where
  "dict_set k v d = AList.update k v d"

subsection \<open>The substring test\<close>

text \<open>\<^verbatim>\<open>needle in hay\<close> on strings: \<open>needle\<close> occurs in \<open>hay\<close> as a contiguous substring.\<close>

fun starts_with :: "string \<Rightarrow> string \<Rightarrow> bool" where
  "starts_with [] hay = True"
| "starts_with (n # ns) [] = False"
| "starts_with (n # ns) (h # hs) = (n = h \<and> starts_with ns hs)"

fun str_contains :: "string \<Rightarrow> string \<Rightarrow> bool" where
  "str_contains needle [] = (needle = [])"
| "str_contains needle (h # hs) = (starts_with needle (h # hs) \<or> str_contains needle hs)"

subsection \<open>The type of a value\<close>

text \<open>\<^verbatim>\<open>type(v)\<close> as an f-string prints it.\<close>

fun type_repr :: "pyval \<Rightarrow> string" where
  "type_repr PNone = ''<class 'NoneType'>''"
| "type_repr (PBool b) = ''<class 'bool'>''"
| "type_repr (PInt i) = ''<class 'int'>''"
| "type_repr (PFloat r) = ''<class 'float'>''"
| "type_repr (PStr s) = ''<class 'str'>''"
| "type_repr (PList xs) = ''<class 'list'>''"
| "type_repr (PDict d) = ''<class 'dict'>''"
| "type_repr (PDatetime t) = ''<class 'datetime.datetime'>''"

section \<open>The library\<close>

text \<open>
  The string methods, \<^verbatim>\<open>str\<close> and \<^verbatim>\<open>datetime.strptime\<close> are code of Python, not of the
  repository, and what they compute depends on the Unicode tables of the interpreter. The
  functions of the repository are modelled over an arbitrary library \<open>L\<close> that provides them,
  and every theorem about them is proved for every \<open>L\<close>: it holds of the code whatever
  \<^verbatim>\<open>lower\<close> does to a letter, whichever characters \<^verbatim>\<open>strip\<close> and \<^verbatim>\<open>split\<close> take for white space,
  however \<^verbatim>\<open>str\<close> writes a value and whichever strings \<^verbatim>\<open>strptime\<close> accepts as a date.
\<close>

record pylib =
  py_lower :: "string \<Rightarrow> string"              \<comment> \<open>\<^verbatim>\<open>s.lower()\<close>\<close>
  py_strip :: "string \<Rightarrow> string"              \<comment> \<open>\<^verbatim>\<open>s.strip()\<close>\<close>
  py_split :: "string \<Rightarrow> string list"         \<comment> \<open>\<^verbatim>\<open>s.split()\<close>\<close>
  py_str :: "pyval \<Rightarrow> string"                 \<comment> \<open>\<^verbatim>\<open>str(v)\<close>\<close>
  py_strptime :: "string \<Rightarrow> datetime option"
    \<comment> \<open>\<^verbatim>\<open>datetime.strptime(s, "%Y-%m-%d")\<close>, \<open>None\<close> when it raises \<^verbatim>\<open>ValueError\<close>\<close>

section \<open>\<^verbatim>\<open>engines/data_handler.py\<close>: class \<^verbatim>\<open>DynamicDataHandler\<close>\<close>

subsection \<open>\<^verbatim>\<open>detect_data_format\<close>\<close>

definition query_fields :: "string list" where
  "query_fields =
     [''crime_type'', ''location'', ''date_start'', ''date_end'', ''status'', ''reported_by'']"

fun detect_data_format :: "pyval \<Rightarrow> py_error + string" where
  "detect_data_format (PDict data) =
     (if list_ex (\<lambda>field. dict_has data field) query_fields then Inr ''query_object''
      else Inr ''record_array'')"
| "detect_data_format (PList data) = Inr ''record_array''"
| "detect_data_format data = Inl (ValueError (''Unsupported data type: '' @ type_repr data))"

subsection \<open>\<^verbatim>\<open>normalize_query_object\<close>\<close>

text \<open>The body of the loop over \<^verbatim>\<open>query_obj.items()\<close>: one item, and the dictionary
  \<^verbatim>\<open>normalized\<close> built so far.\<close>

definition normalize_item :: "pylib \<Rightarrow> string \<times> pyval \<Rightarrow> pydict \<Rightarrow> pydict" where
  "normalize_item L kv normalized =
     (case kv of (key, value) \<Rightarrow>
        if value \<noteq> PNone \<and> value \<noteq> PStr [] \<and> value \<noteq> PList [] then
          (case value of
             PStr s \<Rightarrow> dict_set key (PStr (py_strip L s)) normalized
           | _ \<Rightarrow> dict_set key value normalized)
        else normalized)"

definition normalize_query_object :: "pylib \<Rightarrow> pydict \<Rightarrow> pydict \<times> log_entry list" where
  "normalize_query_object L query_obj =
     (let normalized = fold (normalize_item L) query_obj []
      in (normalized, [Info_normalized normalized]))"

subsection \<open>\<^verbatim>\<open>build_search_filters\<close>\<close>

text \<open>\<^verbatim>\<open>{field: {"$regex": pattern, "$options": "i"}}\<close> and its inner dictionary.\<close>

definition regex_i :: "pyval \<Rightarrow> pyval" where
  "regex_i pattern = PDict [(''$regex'', pattern), (''$options'', PStr ''i'')]"

definition field_regex :: "string \<Rightarrow> string \<Rightarrow> pyval" where
  "field_regex field pattern = PDict [(field, regex_i (PStr pattern))]"

text \<open>\<^verbatim>\<open>v.lower()\<close> on a value that need not be a string.\<close>

definition value_lower :: "pylib \<Rightarrow> pyval \<Rightarrow> py_error + string" where
  "value_lower L v = (case v of PStr s \<Rightarrow> Inr (py_lower L s) | _ \<Rightarrow> Inl AttributeError)"

text \<open>Lines 72 to 82, \<^verbatim>\<open># Handle crime type with fuzzy matching\<close>, from \<^verbatim>\<open>filters = {}\<close>. The list
  \<^verbatim>\<open>filters.get("$or", [])\<close> of the empty dictionary is empty, and is extended by three.\<close>

definition handle_crime_type :: "pylib \<Rightarrow> pydict \<Rightarrow> py_error + pydict" where
  "handle_crime_type L query_obj =
     (if truthy (dict_get query_obj ''crime_type'') then
        (case value_lower L (dict_get query_obj ''crime_type'') of
           Inl e \<Rightarrow> Inl e
         | Inr crime_type \<Rightarrow>
             Inr (dict_set ''$or''
                    (PList ([] @
                       [field_regex ''crime_type'' crime_type,
                        field_regex ''crime_category'' crime_type,
                        field_regex ''crime_subcategory'' crime_type])) []))
      else Inr [])"

text \<open>Lines 84 to 99, \<^verbatim>\<open># Handle location with fuzzy matching\<close>.\<close>

definition handle_location :: "pylib \<Rightarrow> pydict \<Rightarrow> pydict \<Rightarrow> py_error + pydict" where
  "handle_location L query_obj filters =
     (if truthy (dict_get query_obj ''location'') then
        (case value_lower L (dict_get query_obj ''location'') of
           Inl e \<Rightarrow> Inl e
         | Inr location \<Rightarrow>
             (let location_filters =
                    [field_regex ''location'' location,
                     field_regex ''city'' location,
                     field_regex ''address'' location,
                     field_regex ''state'' location,
                     field_regex ''country'' location]
              in if dict_has filters ''$or'' then
                   Inr [(''$and'',
                         PList [PDict [(''$or'', dict_get filters ''$or'')],
                                PDict [(''$or'', PList location_filters)]])]
                 else Inr (dict_set ''$or'' (PList location_filters) filters)))
      else Inr filters)"

text \<open>Lines 103 to 115, \<^verbatim>\<open># Handle date range\<close>, once for \<^verbatim>\<open>date_start\<close> with \<^verbatim>\<open>$gte\<close> and once for
  \<^verbatim>\<open>date_end\<close> with \<^verbatim>\<open>$lte\<close>: \<^verbatim>\<open>strptime\<close> raises \<^verbatim>\<open>TypeError\<close> on a value that is no string,
  which the \<^verbatim>\<open>except ValueError\<close> does not catch; a string that is no date is logged and
  skipped.\<close>

definition date_bound ::
  "pylib \<Rightarrow> string \<Rightarrow> string \<Rightarrow> (pyval \<Rightarrow> log_entry) \<Rightarrow> pydict \<Rightarrow> pydict
     \<Rightarrow> (py_error + pydict) \<times> log_entry list"
where
  "date_bound L field op err query_obj date_filter =
     (if truthy (dict_get query_obj field) then
        (case dict_get query_obj field of
           PStr s \<Rightarrow>
             (case py_strptime L s of
                Some date \<Rightarrow> (Inr (dict_set op (PDatetime date) date_filter), [])
              | None \<Rightarrow> (Inr date_filter, [err (PStr s)]))
         | _ \<Rightarrow> (Inl TypeError, []))
      else (Inr date_filter, []))"

text \<open>Lines 120 to 126, \<^verbatim>\<open># Handle status\<close> and \<^verbatim>\<open># Handle reported_by\<close>.\<close>

definition plain_filter :: "string \<Rightarrow> pydict \<Rightarrow> pydict \<Rightarrow> pydict" where
  "plain_filter field query_obj filters =
     (if truthy (dict_get query_obj field)
      then dict_set field (regex_i (dict_get query_obj field)) filters
      else filters)"

definition build_search_filters ::
  "pylib \<Rightarrow> pydict \<Rightarrow> (py_error + pydict) \<times> log_entry list"
where
  "build_search_filters L query_obj =
     (case handle_crime_type L query_obj of
        Inl e \<Rightarrow> (Inl e, [])
      | Inr filters1 \<Rightarrow>
     (case handle_location L query_obj filters1 of
        Inl e \<Rightarrow> (Inl e, [])
      | Inr filters2 \<Rightarrow>
     (case date_bound L ''date_start'' ''$gte'' Error_date_start query_obj [] of
        (Inl e, log1) \<Rightarrow> (Inl e, log1)
      | (Inr date_filter1, log1) \<Rightarrow>
     (case date_bound L ''date_end'' ''$lte'' Error_date_end query_obj date_filter1 of
        (Inl e, log2) \<Rightarrow> (Inl e, log1 @ log2)
      | (Inr date_filter, log2) \<Rightarrow>
          (let filters3 =
                 (if date_filter \<noteq> [] then dict_set ''date'' (PDict date_filter) filters2
                  else filters2);
               filters4 = plain_filter ''status'' query_obj filters3;
               filters5 = plain_filter ''reported_by'' query_obj filters4
           in (Inr filters5, log1 @ log2))))))"

subsection \<open>\<^verbatim>\<open>search_record_array\<close>\<close>

text \<open>The loop over the search words, left at the first word found in the field's text.\<close>

fun word_found :: "string list \<Rightarrow> string \<Rightarrow> bool" where
  "word_found [] value_str = False"
| "word_found (word # search_words) value_str =
     (if str_contains word value_str then True else word_found search_words value_str)"

text \<open>The loop over the fields of one record, left at the first field with a word in it;
  a field that is \<^verbatim>\<open>None\<close> is skipped.\<close>

fun match_found :: "pylib \<Rightarrow> string list \<Rightarrow> pydict \<Rightarrow> bool" where
  "match_found L search_words [] = False"
| "match_found L search_words ((field, value) # items) =
     (if value = PNone then match_found L search_words items
      else if word_found search_words (py_lower L (py_str L value)) then True
      else match_found L search_words items)"

definition search_record_array ::
  "pylib \<Rightarrow> pydict list \<Rightarrow> string option \<Rightarrow> pydict list \<times> log_entry list"
where
  "search_record_array L records search_terms =
     (case search_terms of
        None \<Rightarrow> (records, [])
      | Some terms \<Rightarrow>
          if terms = [] then (records, [])
          else
            (let search_terms_lower = py_lower L terms;
                 search_words = py_split L search_terms_lower;
                 matching_records = filter (match_found L search_words) records
             in (matching_records,
                 [Info_found (length matching_records) (length records)])))"

subsection \<open>\<^verbatim>\<open>handle_null_empty_fields\<close>\<close>

text \<open>The body of the loop over \<^verbatim>\<open>record.items()\<close>.\<close>

definition clean_item :: "pylib \<Rightarrow> string \<times> pyval \<Rightarrow> pydict \<Rightarrow> pydict" where
  "clean_item L kv cleaned_record =
     (case kv of (field, value) \<Rightarrow>
        (case value of
           PNone \<Rightarrow> dict_set field (PStr ''N/A'') cleaned_record
         | PStr s \<Rightarrow>
             if py_strip L s = [] then dict_set field (PStr ''N/A'') cleaned_record
             else dict_set field value cleaned_record
         | PList xs \<Rightarrow>
             if length xs = 0 then dict_set field (PStr ''N/A'') cleaned_record
             else dict_set field value cleaned_record
         | _ \<Rightarrow> dict_set field value cleaned_record))"

definition handle_null_empty_fields :: "pylib \<Rightarrow> pydict list \<Rightarrow> pydict list" where
  "handle_null_empty_fields L records = map (\<lambda>record. fold (clean_item L) record []) records"

subsection \<open>\<^verbatim>\<open>process_dynamic_data\<close>\<close>

text \<open>The records of a payload: \<^verbatim>\<open>record.items()\<close> raises \<^verbatim>\<open>AttributeError\<close> on an element
  that is no dictionary.\<close>

fun as_records :: "pyval list \<Rightarrow> py_error + pydict list" where
  "as_records [] = Inr []"
| "as_records (PDict d # xs) =
     (case as_records xs of Inl e \<Rightarrow> Inl e | Inr ds \<Rightarrow> Inr (d # ds))"
| "as_records (x # xs) = Inl AttributeError"

text \<open>The body of the \<^verbatim>\<open>try\<close>: its result or the exception that leaves it, and what it logs.\<close>

definition process_body ::
  "pylib \<Rightarrow> pyval \<Rightarrow> string option \<Rightarrow> (py_error + pydict list) \<times> log_entry list"
where
  "process_body L data search_query =
     (case detect_data_format data of
        Inl e \<Rightarrow> (Inl e, [])
      | Inr data_format \<Rightarrow>
          if data_format = ''query_object'' then
            (case data of
               PDict d \<Rightarrow>
                 (case normalize_query_object L d of (normalized_query, log1) \<Rightarrow>
                    (case build_search_filters L normalized_query of
                       (Inl e, log2) \<Rightarrow> (Inl e, Info_detected data_format # log1 @ log2)
                     | (Inr filters, log2) \<Rightarrow>
                         (Inr [[(''query_filters'', PDict filters),
                                (''format'', PStr ''query_object'')]],
                          Info_detected data_format # log1 @ log2)))
             | _ \<Rightarrow>
                 (Inl (ValueError ''Query object format expected dict, got list''),
                  [Info_detected data_format]))
          else if data_format = ''record_array'' then
            (case as_records (case data of PList xs \<Rightarrow> xs | _ \<Rightarrow> [data]) of
               Inl e \<Rightarrow> (Inl e, [Info_detected data_format])
             | Inr records \<Rightarrow>
                 (let cleaned_records = handle_null_empty_fields L records
                  in if search_query \<noteq> None \<and> search_query \<noteq> Some [] then
                       (case search_record_array L cleaned_records search_query of
                          (filtered_records, log1) \<Rightarrow>
                            (Inr filtered_records, Info_detected data_format # log1))
                     else (Inr cleaned_records, [Info_detected data_format])))
          else
            (Inl (ValueError (''Unsupported data format: '' @ data_format)),
             [Info_detected data_format]))"

text \<open>\<^verbatim>\<open>except Exception as e: log_error(..); return []\<close>: every exception of the body is caught.
  The result type keeps the error case, which this function never takes.\<close>

definition process_dynamic_data ::
  "pylib \<Rightarrow> pyval \<Rightarrow> string option \<Rightarrow> (py_error + pydict list) \<times> log_entry list"
where
  "process_dynamic_data L data search_query =
     (case process_body L data search_query of
        (Inl e, log1) \<Rightarrow> (Inr [], log1 @ [Error_processing e])
      | (Inr results, log1) \<Rightarrow> (Inr results, log1))"

section \<open>\<^verbatim>\<open>engines/query_builder.py\<close>\<close>

subsection \<open>\<^verbatim>\<open>build_mongo_query\<close>\<close>

text \<open>Lines 27 to 39: as in \<open>date_bound\<close>, but a string that is no date is skipped with
  \<^verbatim>\<open>pass\<close>.\<close>

definition date_bound_pass ::
  "pylib \<Rightarrow> string \<Rightarrow> string \<Rightarrow> pydict \<Rightarrow> pydict \<Rightarrow> py_error + pydict"
where
  "date_bound_pass L field op parsed_query date_filter =
     (if truthy (dict_get parsed_query field) then
        (case dict_get parsed_query field of
           PStr s \<Rightarrow>
             (case py_strptime L s of
                Some date \<Rightarrow> Inr (dict_set op (PDatetime date) date_filter)
              | None \<Rightarrow> Inr date_filter)
         | _ \<Rightarrow> Inl TypeError)
      else Inr date_filter)"

definition build_mongo_query :: "pylib \<Rightarrow> pydict \<Rightarrow> py_error + pydict" where
  "build_mongo_query L parsed_query =
     (case (if truthy (dict_get parsed_query ''crime_category'') then
              (case value_lower L (dict_get parsed_query ''crime_category'') of
                 Inl e \<Rightarrow> Inl e
               | Inr crime_category \<Rightarrow>
                   Inr (dict_set ''crime_category'' (regex_i (PStr crime_category)) []))
            else Inr []) of
        Inl e \<Rightarrow> Inl e
      | Inr mongo_query1 \<Rightarrow>
     (case (if truthy (dict_get parsed_query ''location'') then
              (case value_lower L (dict_get parsed_query ''location'') of
                 Inl e \<Rightarrow> Inl e
               | Inr location \<Rightarrow>
                   Inr (dict_set ''$or''
                          (PList [field_regex ''city'' location,
                                  field_regex ''location'' location,
                                  field_regex ''address'' location]) mongo_query1))
            else Inr mongo_query1) of
        Inl e \<Rightarrow> Inl e
      | Inr mongo_query2 \<Rightarrow>
     (case date_bound_pass L ''date_start'' ''$gte'' parsed_query [] of
        Inl e \<Rightarrow> Inl e
      | Inr date_filter1 \<Rightarrow>
     (case date_bound_pass L ''date_end'' ''$lte'' parsed_query date_filter1 of
        Inl e \<Rightarrow> Inl e
      | Inr date_filter \<Rightarrow>
          (let mongo_query3 =
                 (if date_filter \<noteq> [] then dict_set ''date'' (PDict date_filter) mongo_query2
                  else mongo_query2);
               mongo_query4 = plain_filter ''status'' parsed_query mongo_query3;
               mongo_query5 = plain_filter ''reported_by'' parsed_query mongo_query4
           in Inr mongo_query5)))))"

subsection \<open>\<^verbatim>\<open>translate_synonyms\<close>\<close>

text \<open>The items of the dictionary display \<^verbatim>\<open>crime_synonyms\<close>, in the order written; a key
  in another script is given by the bytes of its UTF-8 encoding.\<close>

definition crime_synonyms_items :: "(string \<times> string) list" where
  "crime_synonyms_items =
    [
     \<comment> \<open>English\<close>
     (''theft'', ''theft''),
     (''stealing'', ''theft''),
     (''burglary'', ''burglary''),
     (''robbery'', ''robbery''),
     (''assault'', ''assault''),
     (''murder'', ''murder''),
     (''fraud'', ''fraud''),
     \<comment> \<open>Hindi\<close>
     ([CHR 0xE0, CHR 0xA4, CHR 0x9A, CHR 0xE0, CHR 0xA5, CHR 0x8B, CHR 0xE0, CHR 0xA4, CHR 0xB0,
        CHR 0xE0, CHR 0xA5, CHR 0x80], ''theft''),
     ([CHR 0xE0, CHR 0xA4, CHR 0x9A, CHR 0xE0, CHR 0xA5, CHR 0x8B, CHR 0xE0, CHR 0xA4, CHR 0xB0,
        CHR 0xE0, CHR 0xA5, CHR 0x80, CHR 0x20, CHR 0xE0, CHR 0xA4, CHR 0x95, CHR 0xE0, CHR 0xA4,
        CHR 0xB0, CHR 0xE0, CHR 0xA4, CHR 0xA8, CHR 0xE0, CHR 0xA4, CHR 0xBE], ''theft''),
     ([CHR 0xE0, CHR 0xA4, CHR 0x9A, CHR 0xE0, CHR 0xA5, CHR 0x8B, CHR 0xE0, CHR 0xA4, CHR 0xB0], ''theft''),
     ([CHR 0xE0, CHR 0xA4, CHR 0xA1, CHR 0xE0, CHR 0xA4, CHR 0x95, CHR 0xE0, CHR 0xA5, CHR 0x88,
        CHR 0xE0, CHR 0xA4, CHR 0xA4, CHR 0xE0, CHR 0xA5, CHR 0x80], ''robbery''),
     ([CHR 0xE0, CHR 0xA4, CHR 0xA1, CHR 0xE0, CHR 0xA4, CHR 0x95, CHR 0xE0, CHR 0xA5, CHR 0x88,
        CHR 0xE0, CHR 0xA4, CHR 0xA4], ''robbery''),
     ([CHR 0xE0, CHR 0xA4, CHR 0xB9, CHR 0xE0, CHR 0xA4, CHR 0xBF, CHR 0xE0, CHR 0xA4, CHR 0x82,
        CHR 0xE0, CHR 0xA4, CHR 0xB8, CHR 0xE0, CHR 0xA4, CHR 0xBE], ''assault''),
     ([CHR 0xE0, CHR 0xA4, CHR 0xB9, CHR 0xE0, CHR 0xA4, CHR 0xA4, CHR 0xE0, CHR 0xA5, CHR 0x8D,
        CHR 0xE0, CHR 0xA4, CHR 0xAF, CHR 0xE0, CHR 0xA4, CHR 0xBE], ''murder''),
     ([CHR 0xE0, CHR 0xA4, CHR 0xA7, CHR 0xE0, CHR 0xA5, CHR 0x8B, CHR 0xE0, CHR 0xA4, CHR 0x96,
        CHR 0xE0, CHR 0xA4, CHR 0xBE], ''fraud''),
     ([CHR 0xE0, CHR 0xA4, CHR 0xA0, CHR 0xE0, CHR 0xA4, CHR 0x97, CHR 0xE0, CHR 0xA5, CHR 0x80], ''fraud''),
     ([CHR 0xE0, CHR 0xA4, CHR 0x98, CHR 0xE0, CHR 0xA4, CHR 0xB0, CHR 0x20, CHR 0xE0, CHR 0xA4,
        CHR 0xAE, CHR 0xE0, CHR 0xA5, CHR 0x87, CHR 0xE0, CHR 0xA4, CHR 0x82, CHR 0x20, CHR 0xE0,
        CHR 0xA4, CHR 0x9A, CHR 0xE0, CHR 0xA5, CHR 0x8B, CHR 0xE0, CHR 0xA4, CHR 0xB0, CHR 0xE0,
        CHR 0xA5, CHR 0x80], ''burglary''),
     \<comment> \<open>Bengali\<close>
     ([CHR 0xE0, CHR 0xA6, CHR 0x9A, CHR 0xE0, CHR 0xA7, CHR 0x81, CHR 0xE0, CHR 0xA6, CHR 0xB0,
        CHR 0xE0, CHR 0xA6, CHR 0xBF], ''theft''),
     ([CHR 0xE0, CHR 0xA6, CHR 0x9A, CHR 0xE0, CHR 0xA7, CHR 0x8B, CHR 0xE0, CHR 0xA6, CHR 0xB0], ''theft''),
     ([CHR 0xE0, CHR 0xA6, CHR 0xA1, CHR 0xE0, CHR 0xA6, CHR 0xBE, CHR 0xE0, CHR 0xA6, CHR 0x95,
        CHR 0xE0, CHR 0xA6, CHR 0xBE, CHR 0xE0, CHR 0xA6, CHR 0xA4, CHR 0xE0, CHR 0xA6, CHR 0xBF], ''robbery''),
     ([CHR 0xE0, CHR 0xA6, CHR 0xB9, CHR 0xE0, CHR 0xA6, CHR 0xBE, CHR 0xE0, CHR 0xA6, CHR 0xAE,
        CHR 0xE0, CHR 0xA6, CHR 0xB2, CHR 0xE0, CHR 0xA6, CHR 0xBE], ''assault''),
     ([CHR 0xE0, CHR 0xA6, CHR 0xB9, CHR 0xE0, CHR 0xA6, CHR 0xA4, CHR 0xE0, CHR 0xA7, CHR 0x8D,
        CHR 0xE0, CHR 0xA6, CHR 0xAF, CHR 0xE0, CHR 0xA6, CHR 0xBE], ''murder''),
     ([CHR 0xE0, CHR 0xA6, CHR 0xAA, CHR 0xE0, CHR 0xA7, CHR 0x8D, CHR 0xE0, CHR 0xA6, CHR 0xB0,
        CHR 0xE0, CHR 0xA6, CHR 0xA4, CHR 0xE0, CHR 0xA6, CHR 0xBE, CHR 0xE0, CHR 0xA6, CHR 0xB0,
        CHR 0xE0, CHR 0xA6, CHR 0xA3, CHR 0xE0, CHR 0xA6, CHR 0xBE], ''fraud''),
     ([CHR 0xE0, CHR 0xA6, CHR 0xAD, CHR 0xE0, CHR 0xA6, CHR 0xBE, CHR 0xE0, CHR 0xA6, CHR 0x99,
        CHR 0xE0, CHR 0xA6, CHR 0x9A, CHR 0xE0, CHR 0xA7, CHR 0x81, CHR 0xE0, CHR 0xA6, CHR 0xB0], ''vandalism''),
     ([CHR 0xE0, CHR 0xA6, CHR 0x98, CHR 0xE0, CHR 0xA6, CHR 0xB0, CHR 0x20, CHR 0xE0, CHR 0xA6,
        CHR 0x9A, CHR 0xE0, CHR 0xA7, CHR 0x81, CHR 0xE0, CHR 0xA6, CHR 0xB0, CHR 0xE0, CHR 0xA6,
        CHR 0xBF], ''burglary''),
     \<comment> \<open>Tamil\<close>
     ([CHR 0xE0, CHR 0xAE, CHR 0xA4, CHR 0xE0, CHR 0xAE, CHR 0xBF, CHR 0xE0, CHR 0xAE, CHR 0xB0,
        CHR 0xE0, CHR 0xAF, CHR 0x81, CHR 0xE0, CHR 0xAE, CHR 0x9F, CHR 0xE0, CHR 0xAF, CHR 0x8D,
        CHR 0xE0, CHR 0xAE, CHR 0x9F, CHR 0xE0, CHR 0xAF, CHR 0x81], ''theft''),
     ([CHR 0xE0, CHR 0xAE, CHR 0xAE, CHR 0xE0, CHR 0xAF, CHR 0x8B, CHR 0xE0, CHR 0xAE, CHR 0x9A,
        CHR 0xE0, CHR 0xAE, CHR 0x9F, CHR 0xE0, CHR 0xAE, CHR 0xBF], ''fraud''),
     ([CHR 0xE0, CHR 0xAE, CHR 0x95, CHR 0xE0, CHR 0xAF, CHR 0x8A, CHR 0xE0, CHR 0xAE, CHR 0xB3,
        CHR 0xE0, CHR 0xAF, CHR 0x8D, CHR 0xE0, CHR 0xAE, CHR 0xB3, CHR 0xE0, CHR 0xAF, CHR 0x88], ''robbery''),
     ([CHR 0xE0, CHR 0xAE, CHR 0xA4, CHR 0xE0, CHR 0xAE, CHR 0xBE, CHR 0xE0, CHR 0xAE, CHR 0x95,
        CHR 0xE0, CHR 0xAF, CHR 0x8D, CHR 0xE0, CHR 0xAE, CHR 0x95, CHR 0xE0, CHR 0xAF, CHR 0x81,
        CHR 0xE0, CHR 0xAE, CHR 0xA4, CHR 0xE0, CHR 0xAE, CHR 0xB2, CHR 0xE0, CHR 0xAF, CHR 0x8D], ''assault''),
     ([CHR 0xE0, CHR 0xAE, CHR 0x95, CHR 0xE0, CHR 0xAF, CHR 0x8A, CHR 0xE0, CHR 0xAE, CHR 0xB2,
        CHR 0xE0, CHR 0xAF, CHR 0x88], ''murder''),
     ([CHR 0xE0, CHR 0xAE, CHR 0xAE, CHR 0xE0, CHR 0xAE, CHR 0xA9, CHR 0xE0, CHR 0xAF, CHR 0x88,
        CHR 0xE0, CHR 0xAE, CHR 0xB5, CHR 0xE0, CHR 0xAE, CHR 0xBF, CHR 0x20, CHR 0xE0, CHR 0xAE,
        CHR 0xA4, CHR 0xE0, CHR 0xAE, CHR 0xBF, CHR 0xE0, CHR 0xAE, CHR 0xB0, CHR 0xE0, CHR 0xAF,
        CHR 0x81, CHR 0xE0, CHR 0xAE, CHR 0x9F, CHR 0xE0, CHR 0xAF, CHR 0x8D, CHR 0xE0, CHR 0xAE,
        CHR 0x9F, CHR 0xE0, CHR 0xAF, CHR 0x81], ''burglary''),
     \<comment> \<open>Telugu\<close>
     ([CHR 0xE0, CHR 0xB0, CHR 0xA6, CHR 0xE0, CHR 0xB1, CHR 0x8A, CHR 0xE0, CHR 0xB0, CHR 0x82,
        CHR 0xE0, CHR 0xB0, CHR 0x97, CHR 0xE0, CHR 0xB0, CHR 0xA4, CHR 0xE0, CHR 0xB0, CHR 0xA8,
        CHR 0xE0, CHR 0xB0, CHR 0x82], ''theft''),
     ([CHR 0xE0, CHR 0xB0, CHR 0x8A, CHR 0xE0, CHR 0xB0, CHR 0xB0, CHR 0xE0, CHR 0xB0, CHR 0xBF,
        CHR 0xE0, CHR 0xB0, CHR 0xAA, CHR 0xE0, CHR 0xB1, CHR 0x8B, CHR 0xE0, CHR 0xB0, CHR 0x95], ''robbery''),
     ([CHR 0xE0, CHR 0xB0, CHR 0xAE, CHR 0xE0, CHR 0xB1, CHR 0x8B, CHR 0xE0, CHR 0xB0, CHR 0xB8,
        CHR 0xE0, CHR 0xB0, CHR 0x82], ''fraud''),
     ([CHR 0xE0, CHR 0xB0, CHR 0xA6, CHR 0xE0, CHR 0xB0, CHR 0xBE, CHR 0xE0, CHR 0xB0, CHR 0xA1,
        CHR 0xE0, CHR 0xB0, CHR 0xBF], ''assault''),
     ([CHR 0xE0, CHR 0xB0, CHR 0xB9, CHR 0xE0, CHR 0xB0, CHR 0xA4, CHR 0xE0, CHR 0xB1, CHR 0x8D,
        CHR 0xE0, CHR 0xB0, CHR 0xAF], ''murder''),
     ([CHR 0xE0, CHR 0xB0, CHR 0x9A, CHR 0xE0, CHR 0xB1, CHR 0x8B, CHR 0xE0, CHR 0xB0, CHR 0xB0,
        CHR 0xE0, CHR 0xB1, CHR 0x80], ''burglary''),
     \<comment> \<open>Marathi\<close>
     ([CHR 0xE0, CHR 0xA4, CHR 0x9A, CHR 0xE0, CHR 0xA5, CHR 0x8B, CHR 0xE0, CHR 0xA4, CHR 0xB0,
        CHR 0xE0, CHR 0xA5, CHR 0x80], ''theft''),
     ([CHR 0xE0, CHR 0xA4, CHR 0x9A, CHR 0xE0, CHR 0xA5, CHR 0x8B, CHR 0xE0, CHR 0xA4, CHR 0xB0], ''theft''),
     ([CHR 0xE0, CHR 0xA4, CHR 0x9B, CHR 0xE0, CHR 0xA4, CHR 0xBE, CHR 0xE0, CHR 0xA4, CHR 0xAA,
        CHR 0xE0, CHR 0xA4, CHR 0xBE, CHR 0x20, CHR 0xE0, CHR 0xA4, CHR 0xAE, CHR 0xE0, CHR 0xA4,
        CHR 0xBE, CHR 0xE0, CHR 0xA4, CHR 0xB0, CHR 0xE0, CHR 0xA4, CHR 0xA3, CHR 0xE0, CHR 0xA5,
        CHR 0x87], ''robbery''),
     ([CHR 0xE0, CHR 0xA4, CHR 0xB9, CHR 0xE0, CHR 0xA4, CHR 0xB2, CHR 0xE0, CHR 0xA5, CHR 0x8D,
        CHR 0xE0, CHR 0xA4, CHR 0xB2, CHR 0xE0, CHR 0xA4, CHR 0xBE], ''assault''),
     ([CHR 0xE0, CHR 0xA4, CHR 0x96, CHR 0xE0, CHR 0xA5, CHR 0x82, CHR 0xE0, CHR 0xA4, CHR 0xA8], ''murder''),
     ([CHR 0xE0, CHR 0xA4, CHR 0xAB, CHR 0xE0, CHR 0xA4, CHR 0xB8, CHR 0xE0, CHR 0xA4, CHR 0xB5,
        CHR 0xE0, CHR 0xA4, CHR 0xA3, CHR 0xE0, CHR 0xA5, CHR 0x82, CHR 0xE0, CHR 0xA4, CHR 0x95], ''fraud''),
     ([CHR 0xE0, CHR 0xA4, CHR 0x98, CHR 0xE0, CHR 0xA4, CHR 0xB0, CHR 0xE0, CHR 0xA4, CHR 0xAB,
        CHR 0xE0, CHR 0xA5, CHR 0x8B, CHR 0xE0, CHR 0xA4, CHR 0xA1, CHR 0xE0, CHR 0xA5, CHR 0x80], ''burglary''),
     \<comment> \<open>Kannada\<close>
     ([CHR 0xE0, CHR 0xB2, CHR 0xAE, CHR 0xE0, CHR 0xB3, CHR 0x8B, CHR 0xE0, CHR 0xB2, CHR 0xB8], ''fraud''),
     ([CHR 0xE0, CHR 0xB2, CHR 0x95, CHR 0xE0, CHR 0xB2, CHR 0xB3, CHR 0xE0, CHR 0xB3, CHR 0x8D,
        CHR 0xE0, CHR 0xB2, CHR 0xB3, CHR 0xE0, CHR 0xB2, CHR 0xA4, CHR 0xE0, CHR 0xB2, CHR 0xA8], ''theft''),
     ([CHR 0xE0, CHR 0xB2, CHR 0xA6, CHR 0xE0, CHR 0xB2, CHR 0xBE, CHR 0xE0, CHR 0xB2, CHR 0xB3,
        CHR 0xE0, CHR 0xB3, CHR 0x86], ''robbery''),
     ([CHR 0xE0, CHR 0xB2, CHR 0xB9, CHR 0xE0, CHR 0xB2, CHR 0xB2, CHR 0xE0, CHR 0xB3, CHR 0x8D,
        CHR 0xE0, CHR 0xB2, CHR 0xB2, CHR 0xE0, CHR 0xB3, CHR 0x86], ''assault''),
     ([CHR 0xE0, CHR 0xB2, CHR 0x95, CHR 0xE0, CHR 0xB3, CHR 0x8A, CHR 0xE0, CHR 0xB2, CHR 0xB2,
        CHR 0xE0, CHR 0xB3, CHR 0x86], ''murder''),
     ([CHR 0xE0, CHR 0xB2, CHR 0xA4, CHR 0xE0, CHR 0xB3, CHR 0x8B, CHR 0xE0, CHR 0xB2, CHR 0x9F,
        CHR 0xE0, CHR 0xB2, CHR 0xA6, CHR 0x20, CHR 0xE0, CHR 0xB2, CHR 0x95, CHR 0xE0, CHR 0xB2,
        CHR 0xB3, CHR 0xE0, CHR 0xB3, CHR 0x8D, CHR 0xE0, CHR 0xB2, CHR 0xB3, CHR 0xE0, CHR 0xB2,
        CHR 0xA4, CHR 0xE0, CHR 0xB2, CHR 0xA8], ''burglary''),
     \<comment> \<open>Punjabi\<close>
     ([CHR 0xE0, CHR 0xA8, CHR 0x9A, CHR 0xE0, CHR 0xA9, CHR 0x8B, CHR 0xE0, CHR 0xA8, CHR 0xB0,
        CHR 0xE0, CHR 0xA9, CHR 0x80], ''theft''),
     ([CHR 0xE0, CHR 0xA8, CHR 0xA1, CHR 0xE0, CHR 0xA8, CHR 0xBE, CHR 0xE0, CHR 0xA8, CHR 0x95,
        CHR 0xE0, CHR 0xA9, CHR 0x87, CHR 0xE0, CHR 0xA8, CHR 0xAC, CHR 0xE0, CHR 0xA8, CHR 0xBE,
        CHR 0xE0, CHR 0xA8, CHR 0x9C, CHR 0xE0, CHR 0xA8, CHR 0xBC, CHR 0xE0, CHR 0xA9, CHR 0x80], ''robbery''),
     ([CHR 0xE0, CHR 0xA8, CHR 0xB9, CHR 0xE0, CHR 0xA8, CHR 0xAE, CHR 0xE0, CHR 0xA8, CHR 0xB2,
        CHR 0xE0, CHR 0xA8, CHR 0xBE], ''assault''),
     ([CHR 0xE0, CHR 0xA8, CHR 0x95, CHR 0xE0, CHR 0xA8, CHR 0xA4, CHR 0xE0, CHR 0xA8, CHR 0xB2], ''murder''),
     ([CHR 0xE0, CHR 0xA8, CHR 0xA0, CHR 0xE0, CHR 0xA9, CHR 0xB1, CHR 0xE0, CHR 0xA8, CHR 0x97,
        CHR 0xE0, CHR 0xA9, CHR 0x80], ''fraud''),
     ([CHR 0xE0, CHR 0xA8, CHR 0x98, CHR 0xE0, CHR 0xA8, CHR 0xB0, CHR 0x20, CHR 0xE0, CHR 0xA8,
        CHR 0xA6, CHR 0xE0, CHR 0xA9, CHR 0x80, CHR 0x20, CHR 0xE0, CHR 0xA8, CHR 0x9A, CHR 0xE0,
        CHR 0xA9, CHR 0x8B, CHR 0xE0, CHR 0xA8, CHR 0xB0, CHR 0xE0, CHR 0xA9, CHR 0x80], ''burglary'')
    ]"

text \<open>The dictionary that the display builds: a key written twice keeps its first place and
  takes its last value.\<close>

definition crime_synonyms :: "(string \<times> string) list" where
  "crime_synonyms = fold (\<lambda>kv d. AList.update (fst kv) (snd kv) d) crime_synonyms_items []"

text \<open>The loop over \<^verbatim>\<open>crime_synonyms.items()\<close>, left at the first synonym that occurs in the
  category.\<close>

fun first_synonym :: "(string \<times> string) list \<Rightarrow> string \<Rightarrow> string option" where
  "first_synonym [] crime_category = None"
| "first_synonym ((synonym, standard) # items) crime_category =
     (if str_contains synonym crime_category then Some standard
      else first_synonym items crime_category)"

text \<open>The function assigns to a key of the dictionary it was given and returns that same
  dictionary. Dictionaries are objects in a store: a reference names one, and the store gives
  its contents.\<close>

type_synonym ref = nat
type_synonym store = "ref \<Rightarrow> pydict"

definition translate_synonyms :: "pylib \<Rightarrow> store \<Rightarrow> ref \<Rightarrow> (py_error + ref) \<times> store" where
  "translate_synonyms L h query_dict =
     (if truthy (dict_get (h query_dict) ''crime_category'') then
        (case value_lower L (dict_get (h query_dict) ''crime_category'') of
           Inl e \<Rightarrow> (Inl e, h)
         | Inr crime_category \<Rightarrow>
             (case first_synonym crime_synonyms crime_category of
                Some standard \<Rightarrow>
                  (Inr query_dict,
                   h(query_dict := dict_set ''crime_category'' (PStr standard) (h query_dict)))
              | None \<Rightarrow> (Inr query_dict, h)))
      else (Inr query_dict, h))"

section \<open>Notions used in the statements\<close>

text \<open>The two shapes of payload that the dispatcher accepts.\<close>

fun is_mapping :: "pyval \<Rightarrow> bool" where
  "is_mapping (PDict d) = True"
| "is_mapping v = False"

fun is_sequence :: "pyval \<Rightarrow> bool" where
  "is_sequence (PList xs) = True"
| "is_sequence v = False"

text \<open>A well-formed dictionary has no key twice.\<close>

definition well_formed :: "pydict \<Rightarrow> bool" where
  "well_formed d = distinct (map fst d)"

text \<open>The values of a structured query are strings or \<^verbatim>\<open>None\<close>.\<close>

fun string_or_none :: "pyval \<Rightarrow> bool" where
  "string_or_none PNone = True"
| "string_or_none (PStr s) = True"
| "string_or_none v = False"

definition string_valued :: "pydict \<Rightarrow> bool" where
  "string_valued q = list_all (\<lambda>kv. string_or_none (snd kv)) q"

text \<open>What the canonicalizer makes of a value: the sentinel for \<^verbatim>\<open>None\<close>, for a string that
  \<^verbatim>\<open>strip\<close> leaves empty and for the empty list, the value itself otherwise.\<close>

definition canonical_value :: "pylib \<Rightarrow> pyval \<Rightarrow> pyval" where
  "canonical_value L v =
     (case v of
        PNone \<Rightarrow> PStr ''N/A''
      | PStr s \<Rightarrow> if py_strip L s = [] then PStr ''N/A'' else v
      | PList xs \<Rightarrow> if xs = [] then PStr ''N/A'' else v
      | _ \<Rightarrow> v)"

text \<open>The values that query normalization keeps, and what it makes of a kept value.\<close>

definition kept :: "pyval \<Rightarrow> bool" where
  "kept v \<longleftrightarrow> v \<noteq> PNone \<and> v \<noteq> PStr [] \<and> v \<noteq> PList []"

definition trimmed :: "pylib \<Rightarrow> pyval \<Rightarrow> pyval" where
  "trimmed L v = (case v of PStr s \<Rightarrow> PStr (py_strip L s) | _ \<Rightarrow> v)"

text \<open>No value of the dictionary is a string that is not empty and that \<^verbatim>\<open>strip\<close> leaves
  empty.\<close>

definition no_blank_strings :: "pylib \<Rightarrow> pydict \<Rightarrow> bool" where
  "no_blank_strings L q =
     list_all (\<lambda>kv. case snd kv of PStr s \<Rightarrow> s = [] \<or> py_strip L s \<noteq> [] | _ \<Rightarrow> True) q"

text \<open>The store in which every reference names an empty dictionary.\<close>

definition empty_store :: store where
  "empty_store r = []"

text \<open>The standard term that the synonym table gives for a dictionary: that of the first
  synonym, in the order of the table, that occurs in the lower-cased category, when the
  category is a string that is not empty.\<close>

definition matching_standard :: "pylib \<Rightarrow> pydict \<Rightarrow> string option" where
  "matching_standard L d =
     (case dict_get d ''crime_category'' of
        PStr s \<Rightarrow>
          if s = [] then None
          else map_option snd
                 (find (\<lambda>(synonym, standard). str_contains synonym (py_lower L s)) crime_synonyms)
      | _ \<Rightarrow> None)"

text \<open>A record matches a list of tokens when some token occurs in the lower-cased text of some
  field value that is not \<^verbatim>\<open>None\<close>.\<close>

definition record_matches :: "pylib \<Rightarrow> string list \<Rightarrow> pydict \<Rightarrow> bool" where
  "record_matches L tokens record \<longleftrightarrow>
     (\<exists>token \<in> set tokens. \<exists>(field, value) \<in> set record.
        value \<noteq> PNone \<and> str_contains token (py_lower L (py_str L value)))"

text \<open>The date that a field of the query parses to: none unless the field is a string that is
  not empty and that \<^verbatim>\<open>strptime\<close> accepts.\<close>

definition parsed_date :: "pylib \<Rightarrow> pydict \<Rightarrow> string \<Rightarrow> pyval option" where
  "parsed_date L q field =
     (case dict_get q field of
        PStr s \<Rightarrow> if s = [] then None else map_option PDatetime (py_strptime L s)
      | _ \<Rightarrow> None)"

text \<open>The error-log entry for a field of the query: one entry when the field is a string that
  is not empty and that \<^verbatim>\<open>strptime\<close> refuses, none otherwise.\<close>

definition date_error :: "pylib \<Rightarrow> pydict \<Rightarrow> string \<Rightarrow> (pyval \<Rightarrow> log_entry) \<Rightarrow> log_entry list" where
  "date_error L q field err =
     (case dict_get q field of
        PStr s \<Rightarrow> if s \<noteq> [] \<and> py_strptime L s = None then [err (PStr s)] else []
      | _ \<Rightarrow> [])"

text \<open>The bounds that parsed: the lower one first.\<close>

definition date_filter_of :: "pylib \<Rightarrow> pydict \<Rightarrow> pydict" where
  "date_filter_of L q =
     (case parsed_date L q ''date_start'' of None \<Rightarrow> [] | Some lower \<Rightarrow> [(''$gte'', lower)])
     @ (case parsed_date L q ''date_end'' of None \<Rightarrow> [] | Some upper \<Rightarrow> [(''$lte'', upper)])"

section \<open>A library for the examples\<close>

text \<open>
  The examples below are evaluated with the library \<open>ascii_lib\<close>. It is not the library of
  Python: it computes what Python computes on strings of ASCII characters, and the values of
  the examples hold no other strings. Lower-casing maps \<^verbatim>\<open>A\<close> to \<^verbatim>\<open>Z\<close> onto \<^verbatim>\<open>a\<close> to \<^verbatim>\<open>z\<close>, white
  space is the six ASCII blanks and the four separators 28 to 31, the digits of a date are
  \<^verbatim>\<open>0\<close> to \<^verbatim>\<open>9\<close>, \<^verbatim>\<open>repr\<close> escapes the ASCII control characters. On other strings Python does
  more (it lower-cases the letters of every script, trims and splits at every white space of
  Unicode, reads the decimal digits of every script, escapes what is not printable); the
  theorems that are stated for every library \<open>L\<close> cover that, and none of them uses
  \<open>ascii_lib\<close>.
\<close>

subsection \<open>\<^verbatim>\<open>lower\<close>, \<^verbatim>\<open>strip\<close>, \<^verbatim>\<open>split\<close>\<close>

definition ascii_lower_char :: "char \<Rightarrow> char" where
  "ascii_lower_char c =
     (let n = (of_char c :: nat) in if 65 \<le> n \<and> n \<le> 90 then char_of (n + 32) else c)"

definition ascii_lower :: "string \<Rightarrow> string" where
  "ascii_lower s = map ascii_lower_char s"

definition ascii_isspace :: "char \<Rightarrow> bool" where
  "ascii_isspace c =
     (let n = (of_char c :: nat) in (9 \<le> n \<and> n \<le> 13) \<or> (28 \<le> n \<and> n \<le> 32))"

definition ascii_strip :: "string \<Rightarrow> string" where
  "ascii_strip s = rev (dropWhile ascii_isspace (rev (dropWhile ascii_isspace s)))"

text \<open>The maximal runs of characters that are not white space; \<open>w\<close> is the word being read.\<close>

fun ascii_split_from :: "string \<Rightarrow> string \<Rightarrow> string list" where
  "ascii_split_from w [] = (if w = [] then [] else [w])"
| "ascii_split_from w (c # cs) =
     (if ascii_isspace c then (if w = [] then ascii_split_from [] cs else w # ascii_split_from [] cs)
      else ascii_split_from (w @ [c]) cs)"

definition ascii_split :: "string \<Rightarrow> string list" where
  "ascii_split s = ascii_split_from [] s"

subsection \<open>\<^verbatim>\<open>str\<close> and \<^verbatim>\<open>repr\<close>\<close>

definition digit_char :: "nat \<Rightarrow> char" where
  "digit_char n = ''0123456789abcdef'' ! (n mod 16)"

fun str_of_nat :: "nat \<Rightarrow> string" where
  "str_of_nat n =
     (if n < 10 then [digit_char n] else str_of_nat (n div 10) @ [digit_char (n mod 10)])"

definition str_of_int :: "int \<Rightarrow> string" where
  "str_of_int i = (if i < 0 then CHR ''-'' # str_of_nat (nat (- i)) else str_of_nat (nat i))"

text \<open>\<^verbatim>\<open>"%0{w}d" % n\<close>.\<close>

definition zero_pad :: "nat \<Rightarrow> nat \<Rightarrow> string" where
  "zero_pad w n = replicate (w - length (str_of_nat n)) CHR ''0'' @ str_of_nat n"

text \<open>\<^verbatim>\<open>repr\<close> of a string: quoted with \<^verbatim>\<open>'\<close>, or with \<^verbatim>\<open>"\<close> when the string has a \<^verbatim>\<open>'\<close> and no
  \<^verbatim>\<open>"\<close>; the quote and the backslash are escaped, control characters are written as escapes.\<close>

definition ascii_repr_char :: "char \<Rightarrow> char \<Rightarrow> string" where
  "ascii_repr_char q c =
     (let n = (of_char c :: nat) in
      if c = q \<or> c = CHR 0x5C then [CHR 0x5C, c]
      else if n = 9 then [CHR 0x5C, CHR ''t'']
      else if n = 10 then [CHR 0x5C, CHR ''n'']
      else if n = 13 then [CHR 0x5C, CHR ''r'']
      else if n < 32 \<or> n = 127 then [CHR 0x5C, CHR ''x'', digit_char (n div 16), digit_char (n mod 16)]
      else [c])"

definition ascii_repr_str :: "string \<Rightarrow> string" where
  "ascii_repr_str s =
     (let q = (if CHR 0x27 \<in> set s \<and> CHR 0x22 \<notin> set s then CHR 0x22 else CHR 0x27)
      in q # concat (map (ascii_repr_char q) s) @ [q])"

text \<open>\<^verbatim>\<open>", ".join(xs)\<close>.\<close>

fun join_comma :: "string list \<Rightarrow> string" where
  "join_comma [] = []"
| "join_comma [x] = x"
| "join_comma (x # y # ys) = x @ '', '' @ join_comma (y # ys)"

text \<open>\<^verbatim>\<open>repr\<close> of a \<^verbatim>\<open>datetime\<close> leaves out a microsecond that is 0, and a second that is 0 as
  well.\<close>

fun ascii_repr :: "pyval \<Rightarrow> string" where
  "ascii_repr PNone = ''None''"
| "ascii_repr (PBool b) = (if b then ''True'' else ''False'')"
| "ascii_repr (PInt i) = str_of_int i"
| "ascii_repr (PFloat r) = r"
| "ascii_repr (PStr s) = ascii_repr_str s"
| "ascii_repr (PList xs) = ''['' @ join_comma (map ascii_repr xs) @ '']''"
| "ascii_repr (PDict d) =
     ''{'' @ join_comma (map (\<lambda>kv. ascii_repr_str (fst kv) @ '': '' @ ascii_repr (snd kv)) d) @ ''}''"
| "ascii_repr (PDatetime (Datetime y mo d h mi s us)) =
     ''datetime.datetime(''
       @ join_comma
           ([str_of_nat y, str_of_nat mo, str_of_nat d, str_of_nat h, str_of_nat mi]
            @ (if s \<noteq> 0 \<or> us \<noteq> 0 then [str_of_nat s] else [])
            @ (if us \<noteq> 0 then [str_of_nat us] else []))
       @ '')''"

text \<open>\<^verbatim>\<open>str(v)\<close>: a string is itself, a \<^verbatim>\<open>datetime\<close> is written \<^verbatim>\<open>YYYY-MM-DD HH:MM:SS\<close>, with the
  microseconds behind a point when there are any, every other value is written as \<^verbatim>\<open>repr\<close>
  writes it.\<close>

definition ascii_str :: "pyval \<Rightarrow> string" where
  "ascii_str v =
     (case v of
        PStr s \<Rightarrow> s
      | PDatetime (Datetime y mo d h mi s us) \<Rightarrow>
          zero_pad 4 y @ ''-'' @ zero_pad 2 mo @ ''-'' @ zero_pad 2 d @ '' ''
            @ zero_pad 2 h @ '':'' @ zero_pad 2 mi @ '':'' @ zero_pad 2 s
            @ (if us \<noteq> 0 then ''.'' @ zero_pad 6 us else [])
      | _ \<Rightarrow> ascii_repr v)"

subsection \<open>\<^verbatim>\<open>datetime.strptime(s, "%Y-%m-%d")\<close>\<close>

text \<open>
  On a string of ASCII characters: the string is matched against the pattern of the format,
  alternative by alternative from the left: four digits, a hyphen, the month as \<^verbatim>\<open>1[0-2]|0[1-9]|[1-9]\<close>, a hyphen, the
  day as \<^verbatim>\<open>3[0-1]|[1-2]\d|0[1-9]|[1-9]| [1-9]\<close>; nothing may remain behind the day; the
  three numbers must be a date of the calendar (years 1 to 9999). Every failure is a
  \<^verbatim>\<open>ValueError\<close>, here \<open>None\<close>.
\<close>

definition is_digit :: "char \<Rightarrow> bool" where
  "is_digit c = (let n = (of_char c :: nat) in 48 \<le> n \<and> n \<le> 57)"

definition digit_val :: "char \<Rightarrow> nat" where
  "digit_val c = of_char c - 48"

definition in_range :: "char \<Rightarrow> char \<Rightarrow> char \<Rightarrow> bool" where
  "in_range lo hi c = ((of_char lo :: nat) \<le> of_char c \<and> (of_char c :: nat) \<le> of_char hi)"

fun match_Y :: "string \<Rightarrow> (nat \<times> string) option" where
  "match_Y (a # b # c # d # rest) =
     (if is_digit a \<and> is_digit b \<and> is_digit c \<and> is_digit d
      then Some (1000 * digit_val a + 100 * digit_val b + 10 * digit_val c + digit_val d, rest)
      else None)"
| "match_Y s = None"

fun expect_hyphen :: "string \<Rightarrow> string option" where
  "expect_hyphen (c # rest) = (if c = CHR ''-'' then Some rest else None)"
| "expect_hyphen [] = None"

text \<open>Two characters, the first in \<open>[l1-h1]\<close> and the second in \<open>[l2-h2]\<close>; one character in
  \<open>[l-h]\<close>.\<close>

fun two_chars :: "char \<Rightarrow> char \<Rightarrow> char \<Rightarrow> char \<Rightarrow> string \<Rightarrow> (nat \<times> string) option" where
  "two_chars l1 h1 l2 h2 (a # b # rest) =
     (if in_range l1 h1 a \<and> in_range l2 h2 b then Some (10 * digit_val a + digit_val b, rest)
      else None)"
| "two_chars l1 h1 l2 h2 s = None"

fun one_char :: "char \<Rightarrow> char \<Rightarrow> string \<Rightarrow> (nat \<times> string) option" where
  "one_char l h (a # rest) = (if in_range l h a then Some (digit_val a, rest) else None)"
| "one_char l h [] = None"

text \<open>The first alternative, in the order given, after which \<open>k\<close> succeeds on the rest.\<close>

fun first_alt ::
  "(string \<Rightarrow> (nat \<times> string) option) list \<Rightarrow> (string \<Rightarrow> 'a option) \<Rightarrow> string \<Rightarrow> (nat \<times> 'a) option"
where
  "first_alt [] k s = None"
| "first_alt (p # ps) k s =
     (case p s of
        None \<Rightarrow> first_alt ps k s
      | Some (n, rest) \<Rightarrow>
          (case k rest of None \<Rightarrow> first_alt ps k s | Some r \<Rightarrow> Some (n, r)))"

definition match_m :: "string \<Rightarrow> (nat \<times> string) option" where
  "match_m s =
     first_alt
       [two_chars CHR ''1'' CHR ''1'' CHR ''0'' CHR ''2'',
        two_chars CHR ''0'' CHR ''0'' CHR ''1'' CHR ''9'',
        one_char CHR ''1'' CHR ''9'']
       expect_hyphen s"

text \<open>The last alternative of the day is a blank and a digit: \<^verbatim>\<open>int(" 5")\<close> is 5.\<close>

fun blank_digit :: "string \<Rightarrow> (nat \<times> string) option" where
  "blank_digit (a # b # rest) =
     (if a = CHR '' '' \<and> in_range CHR ''1'' CHR ''9'' b then Some (digit_val b, rest) else None)"
| "blank_digit s = None"

definition match_d :: "string \<Rightarrow> (nat \<times> string) option" where
  "match_d s =
     first_alt
       [two_chars CHR ''3'' CHR ''3'' CHR ''0'' CHR ''1'',
        two_chars CHR ''1'' CHR ''2'' CHR ''0'' CHR ''9'',
        two_chars CHR ''0'' CHR ''0'' CHR ''1'' CHR ''9'',
        one_char CHR ''1'' CHR ''9'',
        blank_digit]
       Some s"

definition is_leap :: "nat \<Rightarrow> bool" where
  "is_leap y = (y mod 4 = 0 \<and> (y mod 100 \<noteq> 0 \<or> y mod 400 = 0))"

definition days_in_month :: "nat \<Rightarrow> nat \<Rightarrow> nat" where
  "days_in_month y m =
     (if m = 2 then (if is_leap y then 29 else 28)
      else if m = 4 \<or> m = 6 \<or> m = 9 \<or> m = 11 then 30 else 31)"

definition ascii_strptime :: "string \<Rightarrow> datetime option" where
  "ascii_strptime s =
     (case match_Y s of
        None \<Rightarrow> None
      | Some (y, s1) \<Rightarrow>
     (case expect_hyphen s1 of
        None \<Rightarrow> None
      | Some s2 \<Rightarrow>
     (case match_m s2 of
        None \<Rightarrow> None
      | Some (m, s3) \<Rightarrow>
     (case match_d s3 of
        None \<Rightarrow> None
      | Some (d, s4) \<Rightarrow>
          if s4 \<noteq> [] then None
          else if 1 \<le> y \<and> 1 \<le> m \<and> m \<le> 12 \<and> 1 \<le> d \<and> d \<le> days_in_month y m
          then Some (Datetime y m d 0 0 0 0)
          else None))))"

definition ascii_lib :: pylib where
  "ascii_lib =
     \<lparr>py_lower = ascii_lower, py_strip = ascii_strip, py_split = ascii_split,
      py_str = ascii_str, py_strptime = ascii_strptime\<rparr>"

section \<open>Dictionaries\<close>

lemma dict_has_keys: "dict_has d k \<longleftrightarrow> k \<in> fst ` set d"
  by (simp add: dict_has_def map_of_eq_None_iff)

lemma dict_set_fresh: "k \<notin> fst ` set d \<Longrightarrow> dict_set k v d = d @ [(k, v)]"
  unfolding dict_set_def by (induction d) auto

lemma dict_set_other: "k' \<noteq> k \<Longrightarrow> map_of (dict_set k v d) k' = map_of d k'"
  by (simp add: dict_set_def update_conv')

lemma dict_set_keys_present: "dict_has d k \<Longrightarrow> map fst (dict_set k v d) = map fst d"
  by (simp add: dict_set_def update_keys dict_has_keys)

lemma truthy_get_has: "truthy (dict_get d k) \<Longrightarrow> dict_has d k"
  by (auto simp: dict_get_def dict_has_def split: option.splits)

lemma dict_get_dict_set: "dict_get (dict_set k v d) k' = (if k' = k then v else dict_get d k')"
  by (simp add: dict_get_def dict_set_def update_conv')

lemma map_of_dict_set: "map_of (dict_set k v d) k' = (if k' = k then Some v else map_of d k')"
  by (simp add: dict_set_def update_conv')

lemma well_formed_dict_set: "well_formed d \<Longrightarrow> well_formed (dict_set k v d)"
  by (simp add: well_formed_def dict_set_def distinct_update)

section \<open>The format dispatcher\<close>

lemma set_query_fields:
  "set query_fields =
     {''crime_type'', ''location'', ''date_start'', ''date_end'', ''status'', ''reported_by''}"
  unfolding query_fields_def by (simp only: list.set)

text \<open>
  C10, as the code has it. A dictionary is a \<^verbatim>\<open>query_object\<close> exactly when one of the six names
  \<^verbatim>\<open>crime_type\<close>, \<^verbatim>\<open>location\<close>, \<^verbatim>\<open>date_start\<close>, \<^verbatim>\<open>date_end\<close>, \<^verbatim>\<open>status\<close>, \<^verbatim>\<open>reported_by\<close>
  is among its keys, whatever the value stored under it; every other dictionary and every list
  is a \<^verbatim>\<open>record_array\<close>.
\<close>

theorem detect_data_format_classes:
  "detect_data_format (PDict d) =
       Inr (if \<exists>field \<in> {''crime_type'', ''location'', ''date_start'', ''date_end'', ''status'',
                           ''reported_by''}. field \<in> fst ` set d
            then ''query_object'' else ''record_array'')
   \<and> detect_data_format (PList xs) = Inr ''record_array''"
  unfolding set_query_fields [symmetric] by (simp add: list_ex_iff dict_has_keys)

theorem detect_data_format_classes_witness:
  "detect_data_format (PDict [(''location'', PNone)]) = Inr ''query_object''
   \<and> detect_data_format (PDict [(''foo'', PStr ''bar'')]) = Inr ''record_array''
   \<and> detect_data_format (PList []) = Inr ''record_array''"
  using detect_data_format_classes [of "[(''location'', PNone)]" "[]"]
        detect_data_format_classes [of "[(''foo'', PStr ''bar'')]" "[]"]
  by simp

text \<open>
  C10 as the claim words it counts \<^verbatim>\<open>crime_category\<close> among the recognised names. The code
  does not: a dictionary whose only key is \<^verbatim>\<open>crime_category\<close> is a \<^verbatim>\<open>record_array\<close>.
\<close>

theorem detect_crime_category_counterexample:
  "dict_has [(''crime_category'', PStr ''theft'')] ''crime_category''
   \<and> detect_data_format (PDict [(''crime_category'', PStr ''theft'')]) = Inr ''record_array''
   \<and> detect_data_format (PDict [(''crime_category'', PStr ''theft'')]) \<noteq> Inr ''query_object''"
  by (simp add: dict_has_def query_fields_def)

text \<open>
  C2, as the code has it. On a payload that is neither a dictionary nor a list,
  \<^verbatim>\<open>detect_data_format\<close> raises the \<^verbatim>\<open>ValueError\<close> for an unsupported data type;
  \<^verbatim>\<open>process_dynamic_data\<close> catches it, writes it to the error log and returns the empty list.
\<close>

theorem unsupported_payload_is_logged_not_raised:
  assumes "\<not> is_mapping data" and "\<not> is_sequence data"
  shows "detect_data_format data = Inl (ValueError (''Unsupported data type: '' @ type_repr data))
         \<and> process_dynamic_data L data search_query =
             (Inr [], [Error_processing
                         (ValueError (''Unsupported data type: '' @ type_repr data))])"
  using assms by (cases data) (simp_all add: process_dynamic_data_def process_body_def)

theorem unsupported_payload_witness:
  "\<not> is_mapping (PInt 42) \<and> \<not> is_sequence (PInt 42)
   \<and> detect_data_format (PInt 42) = Inl (ValueError ''Unsupported data type: <class 'int'>'')
   \<and> process_dynamic_data ascii_lib (PInt 42) None =
        (Inr [], [Error_processing (ValueError ''Unsupported data type: <class 'int'>'')])"
  using unsupported_payload_is_logged_not_raised [of "PInt 42" ascii_lib None] by simp

text \<open>
  C2 as the claim words it has \<^verbatim>\<open>process\<close> surface the error. On the payload 42 the call
  returns normally, with the empty list.
\<close>

theorem process_swallows_unsupported_counterexample:
  "\<not> is_mapping (PInt 42) \<and> \<not> is_sequence (PInt 42)
   \<and> fst (process_dynamic_data ascii_lib (PInt 42) None) = Inr []
   \<and> fst (process_dynamic_data ascii_lib (PInt 42) None)
        \<noteq> Inl (ValueError ''Unsupported data type: <class 'int'>'')"
  by (simp add: process_dynamic_data_def process_body_def)

section \<open>The null/empty canonicalizer\<close>

lemma clean_item_eq: "clean_item L (k, v) acc = dict_set k (canonical_value L v) acc"
  by (cases v) (simp_all add: clean_item_def canonical_value_def)

lemma fold_clean_item:
  "distinct (map fst r) \<Longrightarrow> fst ` set acc \<inter> fst ` set r = {} \<Longrightarrow>
   fold (clean_item L) r acc = acc @ map (\<lambda>(k, v). (k, canonical_value L v)) r"
proof (induction r arbitrary: acc)
  case Nil
  then show ?case by simp
next
  case (Cons kv r)
  obtain k v where kv: "kv = (k, v)" by (cases kv)
  from Cons.prems have fresh: "k \<notin> fst ` set acc" and d: "distinct (map fst r)"
    and k: "k \<notin> fst ` set r" and disj: "fst ` set acc \<inter> fst ` set r = {}"
    by (auto simp: kv)
  have "fst ` set (acc @ [(k, canonical_value L v)]) \<inter> fst ` set r = {}"
    using disj k by auto
  from Cons.IH [OF d this] show ?case
    by (simp add: kv clean_item_eq dict_set_fresh [OF fresh])
qed

text \<open>
  C4, as the code has it. In every record the canonicalizer replaces a value by the sentinel
  \<^verbatim>\<open>"N/A"\<close> exactly when it is \<^verbatim>\<open>None\<close>, a string that \<^verbatim>\<open>strip\<close> leaves empty (the empty string,
  or one made of nothing but the characters that \<^verbatim>\<open>strip\<close> removes), or the empty list; every
  other value, 0 and \<^verbatim>\<open>False\<close> among them, is kept as it is, and fields and records keep their
  order. This holds whatever \<^verbatim>\<open>strip\<close> removes.
\<close>

theorem handle_null_empty_fields_canonical:
  assumes "\<forall>record \<in> set records. well_formed record"
  shows "handle_null_empty_fields L records =
           map (map (\<lambda>(field, value). (field, canonical_value L value))) records"
  using assms by (simp add: handle_null_empty_fields_def well_formed_def fold_clean_item)

theorem handle_null_empty_fields_witness:
  "well_formed [(''a'', PNone), (''b'', PStr ''''), (''c'', PList []), (''d'', PStr ''  ''),
                (''e'', PInt 0), (''f'', PBool False), (''g'', PStr '' x ''), (''h'', PFloat ''0.0'')]
   \<and> handle_null_empty_fields ascii_lib
        [[(''a'', PNone), (''b'', PStr ''''), (''c'', PList []), (''d'', PStr ''  ''),
          (''e'', PInt 0), (''f'', PBool False), (''g'', PStr '' x ''), (''h'', PFloat ''0.0'')]] =
        [[(''a'', PStr ''N/A''), (''b'', PStr ''N/A''), (''c'', PStr ''N/A''), (''d'', PStr ''N/A''),
          (''e'', PInt 0), (''f'', PBool False), (''g'', PStr '' x ''), (''h'', PFloat ''0.0'')]]"
  using handle_null_empty_fields_canonical
          [of "[[(''a'', PNone), (''b'', PStr ''''), (''c'', PList []), (''d'', PStr ''  ''),
                 (''e'', PInt 0), (''f'', PBool False), (''g'', PStr '' x ''),
                 (''h'', PFloat ''0.0'')]]" ascii_lib]
  by (simp add: well_formed_def canonical_value_def ascii_lib_def ascii_strip_def ascii_isspace_def)

text \<open>
  C4 as the claim words it tests for the exact empty string, so that a string of white space
  only would pass through. The code trims before the test and replaces it: two blanks, which
  \<^verbatim>\<open>strip\<close> removes, come out as the sentinel.
\<close>

theorem whitespace_only_replaced_counterexample:
  "PStr ''  '' \<noteq> PNone \<and> PStr ''  '' \<noteq> PStr '''' \<and> PStr ''  '' \<noteq> PList []
   \<and> py_strip ascii_lib ''  '' = ''''
   \<and> handle_null_empty_fields ascii_lib [[(''a'', PStr ''  '')]] = [[(''a'', PStr ''N/A'')]]"
  by (simp add: handle_null_empty_fields_def clean_item_def ascii_lib_def ascii_strip_def
        ascii_isspace_def dict_set_def)

section \<open>Query normalization\<close>

lemma normalize_item_eq:
  "normalize_item L (k, v) acc = (if kept v then dict_set k (trimmed L v) acc else acc)"
  by (cases v) (simp_all add: normalize_item_def kept_def trimmed_def)

lemma fold_normalize_item:
  "distinct (map fst q) \<Longrightarrow> fst ` set acc \<inter> fst ` set q = {} \<Longrightarrow>
   fold (normalize_item L) q acc =
     acc @ map (\<lambda>(k, v). (k, trimmed L v)) (filter (\<lambda>(k, v). kept v) q)"
proof (induction q arbitrary: acc)
  case Nil
  then show ?case by simp
next
  case (Cons kv q)
  obtain k v where kv: "kv = (k, v)" by (cases kv)
  from Cons.prems have fresh: "k \<notin> fst ` set acc" and d: "distinct (map fst q)"
    and k: "k \<notin> fst ` set q" and disj: "fst ` set acc \<inter> fst ` set q = {}"
    by (auto simp: kv)
  show ?case
  proof (cases "kept v")
    case True
    have "fst ` set (acc @ [(k, trimmed L v)]) \<inter> fst ` set q = {}"
      using disj k by auto
    from Cons.IH [OF d this] True show ?thesis
      by (simp add: kv normalize_item_eq dict_set_fresh [OF fresh])
  next
    case False
    with Cons.IH [OF d disj] show ?thesis
      by (simp add: kv normalize_item_eq)
  qed
qed

text \<open>What normalization computes: the kept fields, in their order, each trimmed.\<close>

lemma normalize_query_object_eq:
  "well_formed q \<Longrightarrow>
   fst (normalize_query_object L q) =
     map (\<lambda>(k, v). (k, trimmed L v)) (filter (\<lambda>(k, v). kept v) q)"
  by (simp add: normalize_query_object_def Let_def well_formed_def fold_normalize_item)

lemma kept_trimmed:
  "kept v \<Longrightarrow> (case v of PStr s \<Rightarrow> s = [] \<or> py_strip L s \<noteq> [] | _ \<Rightarrow> True) \<Longrightarrow> kept (trimmed L v)"
  by (cases v) (auto simp: kept_def trimmed_def)

lemma trimmed_idem:
  "(\<And>s. py_strip L (py_strip L s) = py_strip L s) \<Longrightarrow> trimmed L (trimmed L v) = trimmed L v"
  by (cases v) (simp_all add: trimmed_def)

text \<open>Where normalization is idempotent: on the queries without a string that is not empty and
  that \<^verbatim>\<open>strip\<close> leaves empty, for a \<^verbatim>\<open>strip\<close> that is idempotent itself.\<close>

lemma normalize_idempotent_without_blanks:
  assumes wf: "well_formed q" and nb: "no_blank_strings L q"
    and idem: "\<And>s. py_strip L (py_strip L s) = py_strip L s"
  shows "fst (normalize_query_object L (fst (normalize_query_object L q))) =
         fst (normalize_query_object L q)"
proof -
  let ?n = "map (\<lambda>(k, v). (k, trimmed L v)) (filter (\<lambda>(k, v). kept v) q)"
  have n: "fst (normalize_query_object L q) = ?n" using wf by (rule normalize_query_object_eq)
  have "map fst ?n = map fst (filter (\<lambda>(k, v). kept v) q)"
    by (induction q) auto
  then have wf': "well_formed ?n"
    using wf unfolding well_formed_def by (simp only: distinct_map_filter)
  have all: "\<forall>kv \<in> set ?n. kept (snd kv)"
    using nb by (auto simp: no_blank_strings_def list_all_iff intro!: kept_trimmed)
  then have "filter (\<lambda>(k, v). kept v) ?n = ?n"
    by (intro filter_True) auto
  moreover have "map (\<lambda>(k, v). (k, trimmed L v)) ?n = ?n"
    by (induction q) (auto simp: trimmed_idem [OF idem])
  ultimately show ?thesis
    by (simp only: n normalize_query_object_eq [OF wf'])
qed

text \<open>The \<^verbatim>\<open>strip\<close> of the example library is idempotent.\<close>

lemma ascii_strip_idem: "py_strip ascii_lib (py_strip ascii_lib s) = py_strip ascii_lib s"
proof -
  define t where "t = dropWhile ascii_isspace s"
  define u where "u = dropWhile ascii_isspace (rev t)"
  have "dropWhile ascii_isspace (rev u) = rev u"
  proof (cases "u = []")
    case True
    then show ?thesis by simp
  next
    case False
    have "rev t = takeWhile ascii_isspace (rev t) @ u" by (simp add: u_def)
    then have "last (rev t) = last u" using False by (metis last_appendR)
    moreover have "t \<noteq> []" using False u_def by auto
    ultimately have "hd t = last u" by (simp add: last_rev)
    moreover have "\<not> ascii_isspace (hd t)"
      using \<open>t \<noteq> []\<close> unfolding t_def by (rule hd_dropWhile)
    ultimately show ?thesis using False by (simp add: dropWhile_eq_self_iff hd_rev)
  qed
  moreover have "dropWhile ascii_isspace u = u" by (simp add: u_def)
  ultimately show ?thesis
    by (simp add: ascii_lib_def ascii_strip_def t_def [symmetric] u_def [symmetric])
qed

text \<open>
  C7: normalizing twice is not normalizing once. A location of three blanks is kept by the
  first pass, which tests for the empty string before it trims, and comes out as the empty
  string; the second pass drops it.
\<close>

theorem normalize_twice_differs_at_blank:
  "fst (normalize_query_object ascii_lib [(''location'', PStr ''   '')]) = [(''location'', PStr '''')]
   \<and> fst (normalize_query_object ascii_lib
            (fst (normalize_query_object ascii_lib [(''location'', PStr ''   '')]))) = []"
  by (simp add: normalize_query_object_def normalize_item_def ascii_lib_def ascii_strip_def
        ascii_isspace_def dict_set_def Let_def)

text \<open>
  C8: the output for the same query has the field \<^verbatim>\<open>location\<close> present with the empty string
  as its value.
\<close>

theorem normalize_keeps_empty_value_at_blank:
  "dict_has (fst (normalize_query_object ascii_lib [(''location'', PStr ''   '')])) ''location''
   \<and> dict_get (fst (normalize_query_object ascii_lib [(''location'', PStr ''   '')])) ''location''
       = PStr ''''"
  by (simp add: normalize_query_object_def normalize_item_def ascii_lib_def ascii_strip_def
        ascii_isspace_def dict_set_def dict_has_def dict_get_def Let_def)

section \<open>The substring test\<close>

lemma starts_with_iff: "starts_with needle hay \<longleftrightarrow> (\<exists>s. hay = needle @ s)"
  by (induction needle hay rule: starts_with.induct) auto

lemma str_contains_iff: "str_contains needle hay \<longleftrightarrow> (\<exists>p s. hay = p @ needle @ s)"
proof (induction hay)
  case Nil
  then show ?case by auto
next
  case (Cons h hs)
  show ?case
  proof
    assume "str_contains needle (h # hs)"
    then consider "starts_with needle (h # hs)" | "str_contains needle hs" by auto
    then show "\<exists>p s. h # hs = p @ needle @ s"
    proof cases
      case 1
      then obtain s where "h # hs = needle @ s" by (auto simp: starts_with_iff)
      then have "h # hs = [] @ needle @ s" by simp
      then show ?thesis by blast
    next
      case 2
      then obtain p s where "hs = p @ needle @ s" using Cons.IH by blast
      then have "h # hs = (h # p) @ needle @ s" by simp
      then show ?thesis by blast
    qed
  next
    assume "\<exists>p s. h # hs = p @ needle @ s"
    then obtain p s where e: "h # hs = p @ needle @ s" by blast
    show "str_contains needle (h # hs)"
    proof (cases p)
      case Nil
      with e have "starts_with needle (h # hs)" by (auto simp: starts_with_iff)
      then show ?thesis by simp
    next
      case (Cons a p')
      with e have "hs = p' @ needle @ s" by simp
      then have "str_contains needle hs" using Cons.IH by blast
      then show ?thesis by simp
    qed
  qed
qed

section \<open>The synonym normalizer\<close>

lemma first_synonym_None_iff:
  "first_synonym items c = None \<longleftrightarrow> (\<forall>(synonym, standard) \<in> set items. \<not> str_contains synonym c)"
  by (induction items c rule: first_synonym.induct) auto

text \<open>The loop finds the first item of the table whose synonym occurs in the category.\<close>

lemma first_synonym_find:
  "first_synonym items c =
     map_option snd (find (\<lambda>(synonym, standard). str_contains synonym c) items)"
  by (induction items c rule: first_synonym.induct) auto

lemma matching_standard_string:
  "dict_get d ''crime_category'' = PStr s \<Longrightarrow> s \<noteq> [] \<Longrightarrow>
   matching_standard L d = first_synonym crime_synonyms (py_lower L s)"
  by (simp add: matching_standard_def first_synonym_find)

lemma matching_standard_has:
  "matching_standard L d = Some standard \<Longrightarrow> dict_has d ''crime_category''"
  by (auto simp: matching_standard_def dict_get_def dict_has_def
           split: option.splits pyval.splits if_splits)

text \<open>
  C5, as the code has it. When the category is a string and no synonym of the table occurs in
  its lower-cased form, \<^verbatim>\<open>translate_synonyms\<close> changes nothing: the field keeps the original
  value, which is not lower-cased, and the function returns the dictionary it was given.
\<close>

theorem translate_synonyms_no_match:
  assumes "dict_get (h query_dict) ''crime_category'' = PStr s"
    and "\<forall>(synonym, standard) \<in> set crime_synonyms. \<not> str_contains synonym (py_lower L s)"
  shows "translate_synonyms L h query_dict = (Inr query_dict, h)
         \<and> dict_get (snd (translate_synonyms L h query_dict) query_dict) ''crime_category'' = PStr s"
proof -
  have "first_synonym crime_synonyms (py_lower L s) = None"
    using assms(2) by (simp add: first_synonym_None_iff)
  then have "translate_synonyms L h query_dict = (Inr query_dict, h)"
    using assms(1) by (simp add: translate_synonyms_def value_lower_def)
  then show ?thesis using assms(1) by simp
qed

theorem translate_synonyms_no_match_witness:
  "dict_get ((empty_store(0 := [(''crime_category'', PStr ''XYZ'')])) 0) ''crime_category'' = PStr ''XYZ''
   \<and> first_synonym crime_synonyms (py_lower ascii_lib ''XYZ'') = None
   \<and> translate_synonyms ascii_lib (empty_store(0 := [(''crime_category'', PStr ''XYZ'')])) 0 =
        (Inr 0, empty_store(0 := [(''crime_category'', PStr ''XYZ'')]))"
proof -
  have a: "dict_get ((empty_store(0 := [(''crime_category'', PStr ''XYZ'')])) 0) ''crime_category''
             = PStr ''XYZ''"
    by (simp add: dict_get_def)
  have n: "first_synonym crime_synonyms (py_lower ascii_lib ''XYZ'') = None" by code_simp
  then have b: "\<forall>(synonym, standard) \<in> set crime_synonyms.
                  \<not> str_contains synonym (py_lower ascii_lib ''XYZ'')"
    by (simp only: first_synonym_None_iff)
  from translate_synonyms_no_match
         [of "empty_store(0 := [(''crime_category'', PStr ''XYZ'')])" 0 "''XYZ''" ascii_lib, OF a b]
       a n
  show ?thesis by blast
qed

text \<open>
  C5 as the claim words it leaves the field set to the lower-cased value. For \<^verbatim>\<open>"XYZ"\<close> no
  synonym matches and the field is still \<^verbatim>\<open>"XYZ"\<close>, not \<^verbatim>\<open>"xyz"\<close>: the lower-cased string is
  a local variable of the function.
\<close>

theorem translate_synonyms_not_lowered_counterexample:
  "first_synonym crime_synonyms (py_lower ascii_lib ''XYZ'') = None
   \<and> py_lower ascii_lib ''XYZ'' = ''xyz''
   \<and> dict_get (snd (translate_synonyms ascii_lib
                      (empty_store(0 := [(''crime_category'', PStr ''XYZ'')])) 0) 0)
        ''crime_category'' = PStr ''XYZ''
   \<and> dict_get (snd (translate_synonyms ascii_lib
                      (empty_store(0 := [(''crime_category'', PStr ''XYZ'')])) 0) 0)
        ''crime_category'' \<noteq> PStr ''xyz''"
proof -
  have n: "first_synonym crime_synonyms (py_lower ascii_lib ''XYZ'') = None" by code_simp
  have l: "py_lower ascii_lib ''XYZ'' = ''xyz''" by code_simp
  have "translate_synonyms ascii_lib (empty_store(0 := [(''crime_category'', PStr ''XYZ'')])) 0 =
          (Inr 0, empty_store(0 := [(''crime_category'', PStr ''XYZ'')]))"
    using n by (simp add: translate_synonyms_def value_lower_def dict_get_def)
  then show ?thesis using n l by (simp add: dict_get_def)
qed

text \<open>
  C6, as the code has it. \<^verbatim>\<open>translate_synonyms\<close> works on the dictionary it was given. When the
  category is a non-empty value that is neither a string nor \<^verbatim>\<open>None\<close>, it raises
  \<^verbatim>\<open>AttributeError\<close> and changes nothing. On every other dictionary it returns the very
  dictionary it was given, not a copy. When some synonym of the table occurs in the lower-cased
  category, it has overwritten the field \<^verbatim>\<open>crime_category\<close> of that dictionary with the
  standard term of the first such synonym of the table: the field keeps its place, no key is
  added, no other field changes, and the field now holds the standard term. When no synonym
  occurs, or the category is missing, \<^verbatim>\<open>None\<close> or empty, nothing changes: the field is neither
  lower-cased nor removed. No other dictionary changes in any case.
\<close>

theorem translate_synonyms_in_place:
  "translate_synonyms L h query_dict =
     (if truthy (dict_get (h query_dict) ''crime_category'')
         \<and> \<not> string_or_none (dict_get (h query_dict) ''crime_category'')
      then (Inl AttributeError, h)
      else (Inr query_dict,
            case matching_standard L (h query_dict) of
              None \<Rightarrow> h
            | Some standard \<Rightarrow>
                h(query_dict := dict_set ''crime_category'' (PStr standard) (h query_dict))))
   \<and> (\<forall>standard. matching_standard L (h query_dict) = Some standard \<longrightarrow>
         map fst (dict_set ''crime_category'' (PStr standard) (h query_dict)) = map fst (h query_dict)
         \<and> map_of (dict_set ''crime_category'' (PStr standard) (h query_dict)) ''crime_category''
             = Some (PStr standard)
         \<and> (\<forall>k. k \<noteq> ''crime_category'' \<longrightarrow>
               map_of (dict_set ''crime_category'' (PStr standard) (h query_dict)) k
                 = map_of (h query_dict) k))"
proof
  show "translate_synonyms L h query_dict =
     (if truthy (dict_get (h query_dict) ''crime_category'')
         \<and> \<not> string_or_none (dict_get (h query_dict) ''crime_category'')
      then (Inl AttributeError, h)
      else (Inr query_dict,
            case matching_standard L (h query_dict) of
              None \<Rightarrow> h
            | Some standard \<Rightarrow>
                h(query_dict := dict_set ''crime_category'' (PStr standard) (h query_dict))))"
  proof (cases "dict_get (h query_dict) ''crime_category''")
    case (PStr s)
    show ?thesis
    proof (cases "s = []")
      case True
      with PStr show ?thesis by (simp add: translate_synonyms_def matching_standard_def)
    next
      case False
      note m = matching_standard_string [OF PStr False, of L]
      show ?thesis
        using PStr False
        by (cases "first_synonym crime_synonyms (py_lower L s)")
           (simp_all add: translate_synonyms_def value_lower_def m)
    qed
  qed (simp_all add: translate_synonyms_def value_lower_def matching_standard_def)
next
  show "\<forall>standard. matching_standard L (h query_dict) = Some standard \<longrightarrow>
         map fst (dict_set ''crime_category'' (PStr standard) (h query_dict)) = map fst (h query_dict)
         \<and> map_of (dict_set ''crime_category'' (PStr standard) (h query_dict)) ''crime_category''
             = Some (PStr standard)
         \<and> (\<forall>k. k \<noteq> ''crime_category'' \<longrightarrow>
               map_of (dict_set ''crime_category'' (PStr standard) (h query_dict)) k
                 = map_of (h query_dict) k)"
    by (auto simp: dict_set_keys_present [OF matching_standard_has] map_of_dict_set)
qed

theorem translate_synonyms_in_place_witness:
  "matching_standard ascii_lib
     [(''location'', PStr ''Delhi''), (''crime_category'', PStr ''Car Stealing'')] = Some ''theft''
   \<and> translate_synonyms ascii_lib
       (empty_store(0 := [(''location'', PStr ''Delhi''), (''crime_category'', PStr ''Car Stealing'')])) 0
     = (Inr 0,
        (empty_store(0 := [(''location'', PStr ''Delhi''), (''crime_category'', PStr ''Car Stealing'')]))
          (0 := [(''location'', PStr ''Delhi''), (''crime_category'', PStr ''theft'')]))
   \<and> translate_synonyms ascii_lib (empty_store(0 := [(''crime_category'', PInt 7)])) 0
     = (Inl AttributeError, empty_store(0 := [(''crime_category'', PInt 7)]))
   \<and> translate_synonyms ascii_lib (empty_store(0 := [(''location'', PStr ''Delhi'')])) 0
     = (Inr 0, empty_store(0 := [(''location'', PStr ''Delhi'')]))"
proof -
  let ?d = "[(''location'', PStr ''Delhi''), (''crime_category'', PStr ''Car Stealing'')]"
  let ?h = "empty_store(0 := ?d)"
  let ?h7 = "empty_store(0 := [(''crime_category'', PInt 7)])"
  let ?hn = "empty_store(0 := [(''location'', PStr ''Delhi'')])"
  have m: "matching_standard ascii_lib ?d = Some ''theft''"
    by code_simp
  have g: "dict_get ?d ''crime_category'' = PStr ''Car Stealing''"
    by (simp add: dict_get_def)
  have c: "dict_set ''crime_category'' (PStr ''theft'') ?d
             = [(''location'', PStr ''Delhi''), (''crime_category'', PStr ''theft'')]"
    by (simp add: dict_set_def)
  have 1: "translate_synonyms ascii_lib ?h 0 =
             (Inr 0, ?h(0 := [(''location'', PStr ''Delhi''), (''crime_category'', PStr ''theft'')]))"
    using translate_synonyms_in_place [of ascii_lib ?h 0] by (simp add: m g c)
  have 2: "translate_synonyms ascii_lib ?h7 0 = (Inl AttributeError, ?h7)"
    using translate_synonyms_in_place [of ascii_lib ?h7 0] by (simp add: dict_get_def)
  have 3: "translate_synonyms ascii_lib ?hn 0 = (Inr 0, ?hn)"
    using translate_synonyms_in_place [of ascii_lib ?hn 0]
    by (simp add: dict_get_def matching_standard_def)
  from m 1 2 3 show ?thesis by blast
qed

text \<open>
  C6 as the claim words it has the input unchanged and the result a new object. For
  \<^verbatim>\<open>{"crime_category": "stealing"}\<close> the result is the reference that was passed in, and the
  dictionary it names now holds \<^verbatim>\<open>"theft"\<close>.
\<close>

theorem translate_synonyms_mutates_counterexample:
  "fst (translate_synonyms ascii_lib (empty_store(0 := [(''crime_category'', PStr ''stealing'')])) 0)
     = Inr 0
   \<and> snd (translate_synonyms ascii_lib (empty_store(0 := [(''crime_category'', PStr ''stealing'')])) 0) 0
        = [(''crime_category'', PStr ''theft'')]
   \<and> snd (translate_synonyms ascii_lib (empty_store(0 := [(''crime_category'', PStr ''stealing'')])) 0) 0
        \<noteq> (empty_store(0 := [(''crime_category'', PStr ''stealing'')])) 0"
proof -
  have f: "first_synonym crime_synonyms (py_lower ascii_lib ''stealing'') = Some ''theft''"
    by code_simp
  have "translate_synonyms ascii_lib (empty_store(0 := [(''crime_category'', PStr ''stealing'')])) 0 =
          (Inr 0, (empty_store(0 := [(''crime_category'', PStr ''stealing'')]))
                    (0 := [(''crime_category'', PStr ''theft'')]))"
    using f by (simp add: translate_synonyms_def value_lower_def dict_get_def dict_set_def)
  then show ?thesis by simp
qed

section \<open>The record-array search\<close>

lemma word_found_iff:
  "word_found search_words value_str \<longleftrightarrow> (\<exists>word \<in> set search_words. str_contains word value_str)"
  by (induction search_words) auto

lemma match_found_iff:
  "match_found L search_words record \<longleftrightarrow>
     (\<exists>(field, value) \<in> set record.
        value \<noteq> PNone \<and> word_found search_words (py_lower L (py_str L value)))"
  by (induction L search_words "record" rule: match_found.induct) auto

lemma match_found_record_matches: "match_found L search_words = record_matches L search_words"
proof
  fix r
  show "match_found L search_words r = record_matches L search_words r"
    unfolding match_found_iff word_found_iff record_matches_def by blast
qed

text \<open>
  C9. With no query text, or the empty one, \<^verbatim>\<open>search_record_array\<close> returns its input. With any
  other query text it returns, in their input order and as they are, exactly the records in
  which some token of the lower-cased text, split at white space, occurs in the lower-cased
  string form of some field value that is not \<^verbatim>\<open>None\<close>. This holds whatever \<^verbatim>\<open>lower\<close>, \<^verbatim>\<open>split\<close>
  and \<^verbatim>\<open>str\<close> compute.
\<close>

theorem search_record_array_tokens:
  "search_record_array L records None = (records, [])
   \<and> search_record_array L records (Some []) = (records, [])
   \<and> (query_text \<noteq> [] \<longrightarrow>
        fst (search_record_array L records (Some query_text)) =
          filter (record_matches L (py_split L (py_lower L query_text))) records)"
  by (simp add: search_record_array_def Let_def match_found_record_matches)

theorem search_record_array_tokens_witness:
  "''burglary  XYZ'' \<noteq> []
   \<and> py_split ascii_lib (py_lower ascii_lib ''burglary  XYZ'') = [''burglary'', ''xyz'']
   \<and> fst (search_record_array ascii_lib
            [[(''id'', PInt 3), (''crime_category'', PStr ''Burglary''), (''note'', PNone)],
             [(''id'', PInt 10), (''crime_category'', PStr ''Theft'')],
             [(''id'', PInt 11), (''tags'', PList [PStr ''axyzb''])]]
            (Some ''burglary  XYZ''))
       = [[(''id'', PInt 3), (''crime_category'', PStr ''Burglary''), (''note'', PNone)],
          [(''id'', PInt 11), (''tags'', PList [PStr ''axyzb''])]]"
proof -
  let ?rs = "[[(''id'', PInt 3), (''crime_category'', PStr ''Burglary''), (''note'', PNone)],
             [(''id'', PInt 10), (''crime_category'', PStr ''Theft'')],
             [(''id'', PInt 11), (''tags'', PList [PStr ''axyzb''])]]"
  have ne: "''burglary  XYZ'' \<noteq> []" by simp
  have sp: "py_split ascii_lib (py_lower ascii_lib ''burglary  XYZ'') = [''burglary'', ''xyz'']"
    by code_simp
  have ev: "filter (record_matches ascii_lib
                      (py_split ascii_lib (py_lower ascii_lib ''burglary  XYZ''))) ?rs =
          [[(''id'', PInt 3), (''crime_category'', PStr ''Burglary''), (''note'', PNone)],
           [(''id'', PInt 11), (''tags'', PList [PStr ''axyzb''])]]"
    by code_simp
  from search_record_array_tokens [of ascii_lib ?rs "''burglary  XYZ''"] ne
  have "fst (search_record_array ascii_lib ?rs (Some ''burglary  XYZ'')) =
          filter (record_matches ascii_lib
                    (py_split ascii_lib (py_lower ascii_lib ''burglary  XYZ''))) ?rs"
    by blast
  then show ?thesis using ev sp by simp
qed

text \<open>In the example library it makes no difference whether the text is lower-cased before it
  is split or its tokens after.\<close>

lemma ascii_isspace_lower_char: "ascii_isspace (ascii_lower_char c) = ascii_isspace c"
  by (auto simp: ascii_isspace_def ascii_lower_char_def Let_def)

lemma ascii_split_from_lower:
  "ascii_split_from (ascii_lower w) (ascii_lower s) = map ascii_lower (ascii_split_from w s)"
proof (induction s arbitrary: w)
  case Nil
  then show ?case by (simp add: ascii_lower_def)
next
  case (Cons c cs)
  have a: "ascii_lower (w @ [c]) = ascii_lower w @ [ascii_lower_char c]"
    by (simp add: ascii_lower_def)
  have b: "ascii_lower (c # cs) = ascii_lower_char c # ascii_lower cs"
    by (simp add: ascii_lower_def)
  have e: "ascii_lower [] = []" by (simp add: ascii_lower_def)
  have n: "ascii_lower w = [] \<longleftrightarrow> w = []" by (simp add: ascii_lower_def)
  show ?case
    using Cons.IH [of "[]"] Cons.IH [of "w @ [c]"]
    by (simp add: a b e n ascii_isspace_lower_char)
qed

lemma ascii_split_lower:
  "py_split ascii_lib (py_lower ascii_lib s) = map (py_lower ascii_lib) (py_split ascii_lib s)"
  using ascii_split_from_lower [of "[]" s] by (simp add: ascii_lib_def ascii_split_def ascii_lower_def)

section \<open>The filter builder\<close>

lemma string_valued_get:
  assumes "string_valued q"
  shows "string_or_none (dict_get q k)"
proof (cases "map_of q k")
  case None
  then show ?thesis by (simp add: dict_get_def)
next
  case (Some v)
  then have "(k, v) \<in> set q" by (rule map_of_SomeD)
  with assms have "string_or_none v"
    by (auto simp: string_valued_def list_all_iff)
  then show ?thesis using Some by (simp add: dict_get_def)
qed

text \<open>One date field of a query whose value is a string or \<^verbatim>\<open>None\<close>: nothing is raised, the
  bound is set when the field parses, and the field is logged when it is a string that is not
  empty and does not parse.\<close>

lemma date_bound_string_or_none:
  assumes "string_or_none (dict_get q field)"
  shows "date_bound L field op err q acc =
           (Inr (case parsed_date L q field of None \<Rightarrow> acc | Some d \<Rightarrow> dict_set op d acc),
            date_error L q field err)"
  using assms
  by (cases "dict_get q field")
     (auto simp: date_bound_def parsed_date_def date_error_def split: option.splits)

lemma map_of_plain_filter:
  "k \<noteq> field \<Longrightarrow> map_of (plain_filter field q filters) k = map_of filters k"
  by (simp add: plain_filter_def map_of_dict_set)

lemma well_formed_plain_filter:
  "well_formed filters \<Longrightarrow> well_formed (plain_filter field q filters)"
  by (simp add: plain_filter_def well_formed_dict_set)

lemma date_filter_steps:
  "(case parsed_date L q ''date_end'' of
      None \<Rightarrow> (case parsed_date L q ''date_start'' of None \<Rightarrow> [] | Some d \<Rightarrow> dict_set ''$gte'' d [])
    | Some d' \<Rightarrow>
        dict_set ''$lte'' d'
          (case parsed_date L q ''date_start'' of None \<Rightarrow> [] | Some d \<Rightarrow> dict_set ''$gte'' d []))
   = date_filter_of L q"
  by (simp add: date_filter_of_def dict_set_def split: option.splits)

text \<open>The builder after its first two steps, on a structured query.\<close>

lemma build_search_filters_steps:
  assumes sv: "string_valued q"
    and c: "handle_crime_type L q = Inr filters1"
    and l: "handle_location L q filters1 = Inr filters2"
  shows "build_search_filters L q =
           (Inr (plain_filter ''reported_by'' q
                  (plain_filter ''status'' q
                    (if date_filter_of L q \<noteq> []
                     then dict_set ''date'' (PDict (date_filter_of L q)) filters2
                     else filters2))),
            date_error L q ''date_start'' Error_date_start
              @ date_error L q ''date_end'' Error_date_end)"
proof -
  let ?df1 = "case parsed_date L q ''date_start'' of None \<Rightarrow> [] | Some d \<Rightarrow> dict_set ''$gte'' d []"
  have d1: "date_bound L ''date_start'' ''$gte'' Error_date_start q [] =
              (Inr ?df1, date_error L q ''date_start'' Error_date_start)"
    by (rule date_bound_string_or_none [OF string_valued_get [OF sv]])
  have d2: "date_bound L ''date_end'' ''$lte'' Error_date_end q ?df1 =
              (Inr (date_filter_of L q), date_error L q ''date_end'' Error_date_end)"
    by (simp only: date_bound_string_or_none [OF string_valued_get [OF sv]] date_filter_steps)
  show ?thesis
    by (simp add: build_search_filters_def c l d1 d2 Let_def)
qed

lemma concern_filters_string_valued:
  assumes "string_valued q"
  shows "\<exists>filters1 filters2.
           handle_crime_type L q = Inr filters1 \<and> handle_location L q filters1 = Inr filters2
           \<and> well_formed filters2 \<and> map_of filters2 ''date'' = None"
proof -
  have c: "handle_crime_type L q = Inr [] \<or> (\<exists>x. handle_crime_type L q = Inr [(''$or'', x)])"
    using string_valued_get [OF assms, of "''crime_type''"]
    by (cases "dict_get q ''crime_type''")
       (auto simp: handle_crime_type_def value_lower_def dict_set_def)
  have l: "\<exists>filters2. handle_location L q filters1 = Inr filters2
             \<and> well_formed filters2 \<and> map_of filters2 ''date'' = None"
    if "filters1 = [] \<or> (\<exists>x. filters1 = [(''$or'', x)])" for filters1
    using string_valued_get [OF assms, of "''location''"] that
    by (cases "dict_get q ''location''")
       (auto simp: handle_location_def value_lower_def dict_set_def dict_has_def well_formed_def)
  from c l show ?thesis by metis
qed

text \<open>
  C3. On a structured query, whose values are strings or \<^verbatim>\<open>None\<close>, \<^verbatim>\<open>build_search_filters\<close>
  raises nothing, whatever the two date strings are and whichever strings \<^verbatim>\<open>strptime\<close>
  accepts. The filter it returns has no key twice, and its \<^verbatim>\<open>date\<close> entry holds exactly the
  bounds that parsed: none at all when neither \<^verbatim>\<open>date_start\<close> nor \<^verbatim>\<open>date_end\<close> parses, the
  lower bound \<^verbatim>\<open>$gte\<close> alone or the upper bound \<^verbatim>\<open>$lte\<close> alone when one of them parses, and
  one dictionary with both bounds when both parse. The error log has one entry for each of the
  two fields that is a non-empty string and does not parse, and nothing else.
\<close>

theorem build_search_filters_date_range:
  assumes "string_valued query_obj"
  shows "\<exists>filters.
           build_search_filters L query_obj =
             (Inr filters,
              date_error L query_obj ''date_start'' Error_date_start
                @ date_error L query_obj ''date_end'' Error_date_end)
         \<and> well_formed filters
         \<and> map_of filters ''date'' =
             (case (parsed_date L query_obj ''date_start'', parsed_date L query_obj ''date_end'') of
                (None, None) \<Rightarrow> None
              | (Some lower, None) \<Rightarrow> Some (PDict [(''$gte'', lower)])
              | (None, Some upper) \<Rightarrow> Some (PDict [(''$lte'', upper)])
              | (Some lower, Some upper) \<Rightarrow> Some (PDict [(''$gte'', lower), (''$lte'', upper)]))"
proof -
  from concern_filters_string_valued [OF assms] obtain filters1 filters2 where
    c: "handle_crime_type L query_obj = Inr filters1" and
    l: "handle_location L query_obj filters1 = Inr filters2" and
    wf: "well_formed filters2" and nd: "map_of filters2 ''date'' = None"
    by blast
  let ?f = "plain_filter ''reported_by'' query_obj
                 (plain_filter ''status'' query_obj
                   (if date_filter_of L query_obj \<noteq> []
                    then dict_set ''date'' (PDict (date_filter_of L query_obj)) filters2
                    else filters2))"
  note steps = build_search_filters_steps [OF assms c l]
  moreover have "well_formed ?f"
    using wf by (simp add: well_formed_plain_filter well_formed_dict_set)
  moreover have "map_of ?f ''date'' =
             (case (parsed_date L query_obj ''date_start'', parsed_date L query_obj ''date_end'') of
                (None, None) \<Rightarrow> None
              | (Some lower, None) \<Rightarrow> Some (PDict [(''$gte'', lower)])
              | (None, Some upper) \<Rightarrow> Some (PDict [(''$lte'', upper)])
              | (Some lower, Some upper) \<Rightarrow> Some (PDict [(''$gte'', lower), (''$lte'', upper)]))"
    by (simp add: map_of_plain_filter map_of_dict_set nd date_filter_of_def split: option.splits)
  ultimately show ?thesis by blast
qed

theorem build_search_filters_date_range_witness:
  "string_valued [(''date_start'', PStr ''not-a-date''), (''date_end'', PStr ''2023-02-22'')]
   \<and> build_search_filters ascii_lib
         [(''date_start'', PStr ''not-a-date''), (''date_end'', PStr ''2023-02-22'')]
       = (Inr [(''date'', PDict [(''$lte'', PDatetime (Datetime 2023 2 22 0 0 0 0))])],
          [Error_date_start (PStr ''not-a-date'')])
   \<and> string_valued [(''date_start'', PStr ''2023-02-10''), (''date_end'', PStr ''2023-02-22'')]
   \<and> build_search_filters ascii_lib
         [(''date_start'', PStr ''2023-02-10''), (''date_end'', PStr ''2023-02-22'')]
       = (Inr [(''date'', PDict [(''$gte'', PDatetime (Datetime 2023 2 10 0 0 0 0)),
                                (''$lte'', PDatetime (Datetime 2023 2 22 0 0 0 0))])],
          [])
   \<and> map_of (projr (fst (build_search_filters ascii_lib
          [(''date_start'', PStr ''2023-02-10''), (''date_end'', PStr ''2023-02-22'')]))) ''date''
       = Some (PDict [(''$gte'', PDatetime (Datetime 2023 2 10 0 0 0 0)),
                      (''$lte'', PDatetime (Datetime 2023 2 22 0 0 0 0))])"
proof -
  let ?q1 = "[(''date_start'', PStr ''not-a-date''), (''date_end'', PStr ''2023-02-22'')]"
  let ?q2 = "[(''date_start'', PStr ''2023-02-10''), (''date_end'', PStr ''2023-02-22'')]"
  have sv1: "string_valued ?q1" and sv2: "string_valued ?q2"
    by (simp_all add: string_valued_def)
  have e1: "build_search_filters ascii_lib ?q1 =
              (Inr [(''date'', PDict [(''$lte'', PDatetime (Datetime 2023 2 22 0 0 0 0))])],
               [Error_date_start (PStr ''not-a-date'')])"
    by code_simp
  have e2: "build_search_filters ascii_lib ?q2 =
              (Inr [(''date'', PDict [(''$gte'', PDatetime (Datetime 2023 2 10 0 0 0 0)),
                                     (''$lte'', PDatetime (Datetime 2023 2 22 0 0 0 0))])],
               [])"
    by code_simp
  have p: "parsed_date ascii_lib ?q2 ''date_start'' = Some (PDatetime (Datetime 2023 2 10 0 0 0 0))"
          "parsed_date ascii_lib ?q2 ''date_end'' = Some (PDatetime (Datetime 2023 2 22 0 0 0 0))"
    by code_simp+
  from build_search_filters_date_range [OF sv2, of ascii_lib] obtain filters where
    "fst (build_search_filters ascii_lib ?q2) = Inr filters" and
    "map_of filters ''date'' =
       Some (PDict [(''$gte'', PDatetime (Datetime 2023 2 10 0 0 0 0)),
                    (''$lte'', PDatetime (Datetime 2023 2 22 0 0 0 0))])"
    unfolding p by auto
  then have "map_of (projr (fst (build_search_filters ascii_lib ?q2))) ''date''
       = Some (PDict [(''$gte'', PDatetime (Datetime 2023 2 10 0 0 0 0)),
                      (''$lte'', PDatetime (Datetime 2023 2 22 0 0 0 0))])"
    by simp
  with sv1 sv2 e1 e2 show ?thesis by blast
qed



text \<open>
  Outside the structured queries the builder can raise: a non-empty \<^verbatim>\<open>crime_type\<close> (or
  \<^verbatim>\<open>location\<close>) that is no string has no \<^verbatim>\<open>lower\<close>, and \<^verbatim>\<open>strptime\<close> refuses a date that is no
  string with a \<^verbatim>\<open>TypeError\<close>, which the handler for \<^verbatim>\<open>ValueError\<close> lets through. And the key
  that feeds the category group is \<^verbatim>\<open>crime_type\<close>: a \<^verbatim>\<open>crime_category\<close> in the query is not read.
\<close>

lemma build_search_filters_type_errors:
  "fst (build_search_filters L [(''crime_type'', PInt 7)]) = Inl AttributeError"
  "fst (build_search_filters L [(''date_start'', PInt 20230210)]) = Inl TypeError"
  by (simp_all add: build_search_filters_def handle_crime_type_def handle_location_def
        date_bound_def value_lower_def dict_get_def)

lemma build_search_filters_crime_category_not_read:
  "fst (build_search_filters L [(''crime_category'', PStr ''theft''), (''location'', PStr ''x'')]) =
     Inr [(''$or'', PList [field_regex ''location'' (py_lower L ''x''),
                          field_regex ''city'' (py_lower L ''x''),
                          field_regex ''address'' (py_lower L ''x''),
                          field_regex ''state'' (py_lower L ''x''),
                          field_regex ''country'' (py_lower L ''x'')])]"
  by (simp add: build_search_filters_def handle_crime_type_def handle_location_def
        date_bound_def plain_filter_def value_lower_def dict_get_def dict_set_def dict_has_def
        Let_def)

text \<open>The filter builder of \<^verbatim>\<open>query_builder.py\<close> treats the two dates in the same way, without
  the logging.\<close>

lemma date_bound_pass_string_or_none:
  assumes "string_or_none (dict_get q field)"
  shows "date_bound_pass L field op q acc =
           Inr (case parsed_date L q field of None \<Rightarrow> acc | Some d \<Rightarrow> dict_set op d acc)"
  using assms
  by (cases "dict_get q field")
     (auto simp: date_bound_pass_def parsed_date_def split: option.splits)

lemma build_mongo_query_date_range:
  assumes "string_valued parsed_query"
  shows "\<exists>mongo_query.
           build_mongo_query L parsed_query = Inr mongo_query
         \<and> map_of mongo_query ''date'' =
             (case (parsed_date L parsed_query ''date_start'',
                    parsed_date L parsed_query ''date_end'') of
                (None, None) \<Rightarrow> None
              | (Some lower, None) \<Rightarrow> Some (PDict [(''$gte'', lower)])
              | (None, Some upper) \<Rightarrow> Some (PDict [(''$lte'', upper)])
              | (Some lower, Some upper) \<Rightarrow> Some (PDict [(''$gte'', lower), (''$lte'', upper)]))"
proof -
  let ?c = "if truthy (dict_get parsed_query ''crime_category'') then
              (case value_lower L (dict_get parsed_query ''crime_category'') of
                 Inl e \<Rightarrow> Inl e
               | Inr crime_category \<Rightarrow>
                   Inr (dict_set ''crime_category'' (regex_i (PStr crime_category)) []))
            else Inr []"
  have c: "?c = Inr [] \<or> (\<exists>x. ?c = Inr [(''crime_category'', x)])"
    using string_valued_get [OF assms, of "''crime_category''"]
    by (cases "dict_get parsed_query ''crime_category''")
       (auto simp: value_lower_def dict_set_def)
  then obtain m1 where m1: "?c = Inr m1" and nd1: "map_of m1 ''date'' = None" by auto
  let ?l = "if truthy (dict_get parsed_query ''location'') then
              (case value_lower L (dict_get parsed_query ''location'') of
                 Inl e \<Rightarrow> Inl e
               | Inr location \<Rightarrow>
                   Inr (dict_set ''$or''
                          (PList [field_regex ''city'' location,
                                  field_regex ''location'' location,
                                  field_regex ''address'' location]) m1))
            else Inr m1"
  have "\<exists>m2. ?l = Inr m2 \<and> map_of m2 ''date'' = None"
    using string_valued_get [OF assms, of "''location''"] nd1
    by (cases "dict_get parsed_query ''location''")
       (auto simp: value_lower_def map_of_dict_set)
  then obtain m2 where m2: "?l = Inr m2" and nd2: "map_of m2 ''date'' = None" by auto
  let ?m = "plain_filter ''reported_by'' parsed_query
                 (plain_filter ''status'' parsed_query
                   (if date_filter_of L parsed_query \<noteq> []
                    then dict_set ''date'' (PDict (date_filter_of L parsed_query)) m2
                    else m2))"
  have "build_mongo_query L parsed_query = Inr ?m"
    unfolding build_mongo_query_def m1 sum.case m2
    by (simp add: date_bound_pass_string_or_none [OF string_valued_get [OF assms]]
          date_filter_steps Let_def)
  moreover have "map_of ?m ''date'' =
             (case (parsed_date L parsed_query ''date_start'',
                    parsed_date L parsed_query ''date_end'') of
                (None, None) \<Rightarrow> None
              | (Some lower, None) \<Rightarrow> Some (PDict [(''$gte'', lower)])
              | (None, Some upper) \<Rightarrow> Some (PDict [(''$lte'', upper)])
              | (Some lower, Some upper) \<Rightarrow> Some (PDict [(''$gte'', lower), (''$lte'', upper)]))"
    by (simp add: map_of_plain_filter map_of_dict_set nd2 date_filter_of_def split: option.splits)
  ultimately show ?thesis by blast
qed

section \<open>Inputs beyond ASCII\<close>

text \<open>
  Three inputs on which Python's library does what an ASCII one would not, each under the
  assumption that says what Python computes there: \<^verbatim>\<open>strip\<close> removes a no-break space, so the
  canonicalizer replaces it; \<^verbatim>\<open>lower\<close> maps the capital E with acute onto the small one, so the
  search finds the record; \<^verbatim>\<open>strptime\<close> reads a year in Arabic-Indic digits, so the filter
  has both bounds and nothing is logged.
\<close>

lemma canonicalizer_no_break_space:
  assumes "py_strip L [CHR 0xC2, CHR 0xA0] = []"
  shows "handle_null_empty_fields L [[(''a'', PStr [CHR 0xC2, CHR 0xA0])]] = [[(''a'', PStr ''N/A'')]]"
  using assms by (simp add: handle_null_empty_fields_def clean_item_def dict_set_def)

lemma search_lower_beyond_ascii:
  assumes "py_lower L [CHR ''C'', CHR ''A'', CHR ''F'', CHR 0xC3, CHR 0x89]
             = [CHR ''c'', CHR ''a'', CHR ''f'', CHR 0xC3, CHR 0xA9]"
    and "py_lower L [CHR ''c'', CHR ''a'', CHR ''f'', CHR 0xC3, CHR 0xA9]
             = [CHR ''c'', CHR ''a'', CHR ''f'', CHR 0xC3, CHR 0xA9]"
    and "py_split L [CHR ''c'', CHR ''a'', CHR ''f'', CHR 0xC3, CHR 0xA9]
             = [[CHR ''c'', CHR ''a'', CHR ''f'', CHR 0xC3, CHR 0xA9]]"
    and "py_str L (PStr [CHR ''c'', CHR ''a'', CHR ''f'', CHR 0xC3, CHR 0xA9])
             = [CHR ''c'', CHR ''a'', CHR ''f'', CHR 0xC3, CHR 0xA9]"
  shows "fst (search_record_array L
                [[(''a'', PStr [CHR ''c'', CHR ''a'', CHR ''f'', CHR 0xC3, CHR 0xA9])]]
                (Some [CHR ''C'', CHR ''A'', CHR ''F'', CHR 0xC3, CHR 0x89]))
           = [[(''a'', PStr [CHR ''c'', CHR ''a'', CHR ''f'', CHR 0xC3, CHR 0xA9])]]"
  using assms by (simp add: search_record_array_def Let_def)

lemma date_range_other_digits:
  assumes "py_strptime L ([CHR 0xD9, CHR 0xA2, CHR 0xD9, CHR 0xA0, CHR 0xD9, CHR 0xA2, CHR 0xD9, CHR 0xA3]
                          @ ''-02-10'') = Some lower"
    and "py_strptime L ''2023-02-22'' = Some upper"
  shows "build_search_filters L
           [(''date_start'', PStr ([CHR 0xD9, CHR 0xA2, CHR 0xD9, CHR 0xA0, CHR 0xD9, CHR 0xA2,
                                    CHR 0xD9, CHR 0xA3] @ ''-02-10'')),
            (''date_end'', PStr ''2023-02-22'')]
         = (Inr [(''date'', PDict [(''$gte'', PDatetime lower), (''$lte'', PDatetime upper)])], [])"
  using assms
  by (simp add: build_search_filters_def handle_crime_type_def handle_location_def date_bound_def
        plain_filter_def dict_get_def dict_set_def Let_def)

end
